theory Spec2Isabelle
  imports Complex_Main "HOL-Library.Multiset"
begin

section \<open>Invasion percolation (OpenPNM/Algorithms/\_\_InvasionPercolation\_\_.py)\<close>

text \<open>
  The engine keeps numpy arrays indexed by pore, throat and cluster number.  Arrays are
  lists here, integer entries are \<open>nat\<close>, and the float entries of the timing arrays
  are the real numbers they stand for (the rounding of sums and products is not
  modelled).  Cluster numbers start at 1 and the source reads entry \<open>c - 1\<close>.

  Python exceptions are values of \<open>py_error\<close>.  \<open>NotFinite\<close> is not a Python
  exception: it marks a float quotient with divisor zero, where numpy returns inf or nan
  and the run goes on with that value.  A run is followed only as long as every float
  of the timing arrays is a finite real.
\<close>

datatype py_error = IndexError | ValueError | KeyError | NotFinite

subsection \<open>The standard-library heap functions the engine calls\<close>

text \<open>
  A frontier entry is the tuple \<open>(pressure, throat)\<close>; Python compares tuples
  lexicographically.
\<close>

type_synonym entry = "real \<times> nat"

definition tup_lt :: "entry \<Rightarrow> entry \<Rightarrow> bool" where
  "tup_lt a b \<longleftrightarrow> fst a < fst b \<or> (fst a = fst b \<and> snd a < snd b)"

text \<open>
  \<open>heapq._siftdown(heap, startpos, pos)\<close>: the item at \<open>pos\<close> is held out while
  parents that are larger move down one level.
\<close>

function siftdown_loop :: "entry list \<Rightarrow> nat \<Rightarrow> nat \<Rightarrow> entry \<Rightarrow> entry list" where
  "siftdown_loop heap startpos pos newitem =
     (if pos > startpos then
        (let parentpos = (pos - 1) div 2;
             parent = heap ! parentpos
         in if tup_lt newitem parent
            then siftdown_loop (heap[pos := parent]) startpos parentpos newitem
            else heap[pos := newitem])
      else heap[pos := newitem])"
  by pat_completeness auto
termination
  by (relation "measure (\<lambda>(heap, startpos, pos, newitem). pos)") auto

declare siftdown_loop.simps [simp del]

definition siftdown :: "entry list \<Rightarrow> nat \<Rightarrow> nat \<Rightarrow> entry list" where
  "siftdown heap startpos pos = siftdown_loop heap startpos pos (heap ! pos)"

text \<open>
  \<open>heapq._siftup(heap, pos)\<close>: the smaller child moves up until a leaf is reached,
  then the held item is put there and sifted down again.
\<close>

function siftup_loop :: "entry list \<Rightarrow> nat \<Rightarrow> entry list \<times> nat" where
  "siftup_loop heap pos =
     (let childpos = 2 * pos + 1 in
      if childpos < length heap then
        (let rightpos = childpos + 1;
             childpos' = (if rightpos < length heap
                             \<and> \<not> tup_lt (heap ! childpos) (heap ! rightpos)
                          then rightpos else childpos)
         in siftup_loop (heap[pos := heap ! childpos']) childpos')
      else (heap, pos))"
  by pat_completeness auto
termination
  by (relation "measure (\<lambda>(heap, pos). length heap - pos)") (auto simp: Let_def)

declare siftup_loop.simps [simp del]

definition siftup :: "entry list \<Rightarrow> nat \<Rightarrow> entry list" where
  "siftup heap pos =
     (let newitem = heap ! pos;
          (heap', pos') = siftup_loop heap pos
      in siftdown (heap'[pos' := newitem]) pos pos')"

text \<open>\<open>heapq.heappush(heap, item)\<close>: append, then sift the new last item down.\<close>

definition heappush :: "entry list \<Rightarrow> entry \<Rightarrow> entry list" where
  "heappush heap item = siftdown (heap @ [item]) 0 (length heap)"

text \<open>
  \<open>heapq.heappop(heap)\<close>: \<open>heap.pop()\<close> raises IndexError on the empty list;
  otherwise the last item replaces the root and is sifted up, and the old root is
  returned (with the remaining heap).
\<close>

definition heappop :: "entry list \<Rightarrow> py_error + (entry \<times> entry list)" where
  "heappop heap =
     (if heap = [] then Inl IndexError
      else (let lastelt = last heap; rest = butlast heap
            in if rest \<noteq> [] then Inr (rest ! 0, siftup (rest[0 := lastelt]) 0)
               else Inr (lastelt, rest)))"

text \<open>\<open>heapq.heapify(x)\<close>: sift up every inner position, last one first.\<close>

definition heapify :: "entry list \<Rightarrow> entry list" where
  "heapify x = fold (\<lambda>i h. siftup h i) (rev [0 ..< length x div 2]) x"

text \<open>
  \<open>list(heapq.merge(a, b))\<close>: the smaller head is taken next, the head of the first
  list on a tie.
\<close>

fun heap_merge :: "entry list \<Rightarrow> entry list \<Rightarrow> entry list" where
  "heap_merge [] ys = ys"
| "heap_merge (x # xs) [] = x # xs"
| "heap_merge (x # xs) (y # ys) =
     (if tup_lt y x then y # heap_merge (x # xs) ys else x # heap_merge xs (y # ys))"

subsection \<open>Lengths and contents of the heap operations\<close>

lemma length_siftdown_loop [simp]:
  "length (siftdown_loop heap startpos pos newitem) = length heap"
  by (induction heap startpos pos newitem rule: siftdown_loop.induct)
     (subst siftdown_loop.simps, simp add: Let_def)

lemma length_siftdown [simp]: "length (siftdown heap startpos pos) = length heap"
  by (simp add: siftdown_def)

lemma length_siftup_loop [simp]: "length (fst (siftup_loop heap pos)) = length heap"
  by (induction heap pos rule: siftup_loop.induct)
     (subst siftup_loop.simps, simp add: Let_def)

lemma length_siftup [simp]: "length (siftup heap pos) = length heap"
proof -
  obtain h p where hp: "siftup_loop heap pos = (h, p)" by (cases "siftup_loop heap pos")
  have "length h = length heap" using length_siftup_loop [of heap pos] hp by simp
  then show ?thesis by (simp add: siftup_def hp)
qed

lemma length_heappush [simp]: "length (heappush heap item) = Suc (length heap)"
  by (simp add: heappush_def)

lemma heappop_Nil [simp]: "heappop [] = Inl IndexError"
  by (simp add: heappop_def)

lemma heappop_length:
  "heappop heap = Inr (item, heap') \<Longrightarrow> Suc (length heap') = length heap"
  by (cases heap rule: rev_cases) (auto simp: heappop_def Let_def split: if_splits)

lemma heappop_nonempty: "heap \<noteq> [] \<Longrightarrow> \<exists>item heap'. heappop heap = Inr (item, heap')"
  by (simp add: heappop_def Let_def)



subsection \<open>Network, run arguments and engine state\<close>

text \<open>
  What the engine reads from its collaborators: the number of pores, the two pores each
  throat connects (\<open>find_connected_pores\<close>), the coordinates, and the property arrays
  \<open>pore.volume\<close>, \<open>throat.volume\<close>, \<open>throat.diameter\<close> and the invading phase's
  \<open>throat.capillary_pressure\<close>.  Every array is as long as the network says and every
  pore number it holds is below \<open>num_pores\<close>.
\<close>

record network =
  num_pores :: nat
  conns :: "(nat \<times> nat) list"
  coords :: "(real \<times> real \<times> real) list"
  pore_volumes :: "real list"
  throat_volumes :: "real list"
  tdia :: "real list"
  Pc_entry :: "real list"

datatype end_cond = Breakthrough | Total

text \<open>
  The arguments of \<open>run\<close>.  \<open>inlets\<close> is a list of pore numbers, one cluster each;
  \<open>outlets\<close> may hold negative numbers, as the default \<open>[-1]\<close> does.
\<close>

record run_args =
  inlets :: "nat list"
  outlets :: "int list"
  end_condition :: end_cond
  timing :: bool
  inlet_flow :: real
  report :: real

text \<open>
  The mutable state: the per-pore and per-throat arrays, the \<open>_cluster_data\<close> arrays,
  the array \<open>_Tvol_coef\<close>, the per-cluster throat lists and heaps, and the scalars.
  With timing off the source does not create the timing arrays; here they exist and are
  never written, and the one statement that reads \<open>_cluster_data['haines_time']\<close>
  with timing off (line 546) is the KeyError of \<open>next_jump\<close> below.
  \<open>seq_log\<close> is not a field of the source: it lists, in program order, every value
  stored into \<open>pore.IP_inv_seq\<close> or \<open>throat.IP_inv_seq\<close>.
\<close>

record ip_state =
  pore_cluster_final :: "nat list"
  pore_cluster_original :: "nat list"
  throat_cluster_final :: "nat list"
  pore_inv_seq :: "nat list"
  throat_inv_seq :: "nat list"
  pore_inv_time :: "real list"
  throat_inv_time :: "real list"
  Tvol_coef :: "real list"
  flow_rate :: "real list"
  haines_pressure :: "real list"
  haines_time :: "real list"
  vol_coef :: "real list"
  cap_volume :: "real list"
  pore_volume :: "real list"
  haines_throat :: "nat list"
  active :: "nat list"
  transform :: "nat list"
  tlists :: "nat list list"
  tpoints :: "entry list list"
  tseq :: nat
  pseq :: nat
  NewPore :: int
  sim_time :: real
  current_cluster :: nat
  condition :: bool
  brkevent :: "int list"
  seq_log :: "nat list"

text \<open>The time written into \<open>haines_time\<close> for a cluster that must not fire again.\<close>

definition sentinel :: real where
  "sentinel = 100000000000000000000000000000000"

text \<open>
  Modelled from the spec: \<open>find_neighbor_throats\<close> of the network class is not among
  the sources; the spec gives it as the set of throats that touch one of the given
  pores.  The throats are listed in ascending order, each once.
\<close>

definition find_neighbor_throats :: "network \<Rightarrow> nat list \<Rightarrow> nat list" where
  "find_neighbor_throats net ps =
     filter (\<lambda>t. fst (conns net ! t) \<in> set ps \<or> snd (conns net ! t) \<in> set ps)
            [0 ..< length (conns net)]"

text \<open>
  \<open>np.pi\<close> is the float nearest to the number pi,
  \<open>884279719003555 / 2 ^ 48\<close>.
\<close>

definition np_pi :: real where
  "np_pi = 884279719003555 / 281474976710656"

text \<open>
  \<open>tdia*tdia*tdia*np.pi/12/Pc_entry\<close>, element by element (line 181).  A throat of
  capillary pressure zero makes its quotient inf or nan.
\<close>

definition compute_Tvol_coef :: "network \<Rightarrow> py_error + real list" where
  "compute_Tvol_coef net =
     (if 0 \<in> set (Pc_entry net) then Inl NotFinite
      else Inr (map (\<lambda>(d, p). d * d * d * np_pi / 12 / p) (zip (tdia net) (Pc_entry net))))"

text \<open>\<open>np.where(xs == v)[0]\<close> and \<open>len(np.nonzero(xs)[0])\<close>.\<close>

definition where_eq :: "nat list \<Rightarrow> nat \<Rightarrow> nat list" where
  "where_eq xs v = filter (\<lambda>i. xs ! i = v) [0 ..< length xs]"

definition count_nonzero :: "nat list \<Rightarrow> nat" where
  "count_nonzero xs = length (filter (\<lambda>x. x \<noteq> 0) xs)"

text \<open>\<open>xs[xs == a] = b\<close>.\<close>

definition relabel :: "nat \<Rightarrow> nat \<Rightarrow> nat list \<Rightarrow> nat list" where
  "relabel a b xs = map (\<lambda>x. if x = a then b else x) xs"

subsection \<open>Setup\<close>

text \<open>
  The assignments of \<open>_do_outer_iteration_stage\<close> before the setup and the array
  allocations of \<open>_setup_for_IP\<close> (before its loop over the inlets), but for
  \<open>_Tvol_coef\<close>.
\<close>

definition initial_state :: "network \<Rightarrow> run_args \<Rightarrow> ip_state" where
  "initial_state net cfg =
     (let Np = num_pores net; Nt = length (conns net); clusterCount = length (inlets cfg)
      in \<lparr> pore_cluster_final = replicate Np 0,
           pore_cluster_original = replicate Np 0,
           throat_cluster_final = replicate Nt 0,
           pore_inv_seq = replicate Np 0,
           throat_inv_seq = replicate Nt 0,
           pore_inv_time = replicate Np (- 1),
           throat_inv_time = replicate Nt (- 1),
           Tvol_coef = [],
           flow_rate = replicate clusterCount (1 * inlet_flow cfg),
           haines_pressure = replicate clusterCount 0,
           haines_time = replicate clusterCount 0,
           vol_coef = replicate clusterCount 0,
           cap_volume = replicate clusterCount 0,
           pore_volume = replicate clusterCount 0,
           haines_throat = replicate clusterCount 0,
           active = replicate clusterCount 1,
           transform = map (\<lambda>i. i + 1) [0 ..< clusterCount],
           tlists = [],
           tpoints = [],
           tseq = 1,
           pseq = 1,
           NewPore = - 1,
           sim_time = 0,
           current_cluster = 0,
           condition = True,
           brkevent = [],
           seq_log = [] \<rparr>)"

text \<open>
  Lines 259 to 268: the first Haines jump of cluster \<open>clusterNumber\<close>, whose heap has
  \<open>invaded_throat_info\<close> on top.
\<close>

definition first_jump :: "run_args \<Rightarrow> nat \<Rightarrow> entry \<Rightarrow> ip_state \<Rightarrow> py_error + ip_state" where
  "first_jump cfg clusterNumber invaded_throat_info s =
     (if timing cfg then
        (let hp = fst invaded_throat_info;
             cv = hp * (vol_coef s ! (clusterNumber - 1))
         in if flow_rate s ! (clusterNumber - 1) = 0 then Inl NotFinite
            else Inr (s\<lparr>haines_pressure := (haines_pressure s)[clusterNumber - 1 := hp],
                        cap_volume := (cap_volume s)[clusterNumber - 1 := cv],
                        haines_time := (haines_time s)[clusterNumber - 1 :=
                          (pore_volume s ! (clusterNumber - 1) + cv)
                            / (flow_rate s ! (clusterNumber - 1))],
                        haines_throat :=
                          (haines_throat s)[clusterNumber - 1 := snd invaded_throat_info]\<rparr>))
      else Inr (s\<lparr>haines_throat :=
                    (haines_throat s)[clusterNumber - 1 := snd invaded_throat_info]\<rparr>))"

text \<open>One pass of the loop \<open>for i in self._inlets\<close> for cluster \<open>clusterNumber\<close>.\<close>

definition setup_inlet ::
  "network \<Rightarrow> run_args \<Rightarrow> ip_state \<Rightarrow> nat \<Rightarrow> nat \<Rightarrow> py_error + ip_state" where
  "setup_inlet net cfg s clusterNumber i =
     (let s1 = (if timing cfg
                then s\<lparr>pore_volume := (pore_volume s)[clusterNumber - 1 := pore_volumes net ! i]\<rparr>
                else s);
          s2 = s1\<lparr>pore_cluster_final := (pore_cluster_final s1)[i := clusterNumber],
                  pore_cluster_original := (pore_cluster_original s1)[i := clusterNumber],
                  pore_inv_seq := (pore_inv_seq s1)[i := tseq s1],
                  seq_log := seq_log s1 @ [tseq s1]\<rparr>;
          s3 = (if timing cfg
                then s2\<lparr>pore_inv_time := (pore_inv_time s2)[i := sim_time s2]\<rparr>
                else s2);
          interface_throat_numbers =
            find_neighbor_throats net (where_eq (pore_cluster_final s3) clusterNumber);
          s4 = (if timing cfg
                then s3\<lparr>vol_coef := (vol_coef s3)[clusterNumber - 1 :=
                          sum_list (map (\<lambda>t. Tvol_coef s3 ! t) interface_throat_numbers)]\<rparr>
                else s3);
          interface_throat_pressures = map (\<lambda>t. Pc_entry net ! t) interface_throat_numbers;
          Interface = heapify (zip interface_throat_pressures interface_throat_numbers);
          s5 = s4\<lparr>tlists := tlists s4 @ [interface_throat_numbers],
                  tpoints := tpoints s4 @ [Interface]\<rparr>
      in case Interface of
           [] \<Rightarrow> Inl IndexError
         | invaded_throat_info # _ \<Rightarrow> first_jump cfg clusterNumber invaded_throat_info s5)"

fun setup_inlets ::
  "network \<Rightarrow> run_args \<Rightarrow> ip_state \<Rightarrow> nat \<Rightarrow> nat list \<Rightarrow> py_error + ip_state" where
  "setup_inlets net cfg s clusterNumber [] = Inr s"
| "setup_inlets net cfg s clusterNumber (i # rest) =
     (case setup_inlet net cfg s clusterNumber i of
        Inl e \<Rightarrow> Inl e
      | Inr s' \<Rightarrow> setup_inlets net cfg s' (clusterNumber + 1) rest)"

text \<open>
  \<open>_setup_for_IP\<close>: the coefficients when timing is on, the loop over the inlets and
  the counters.  The distance and progress fields it computes afterwards are modelled
  apart (see \<open>setup_progress\<close>); they are read by the progress report only.
\<close>

definition setup_for_IP :: "network \<Rightarrow> run_args \<Rightarrow> ip_state \<Rightarrow> py_error + ip_state" where
  "setup_for_IP net cfg s =
     (case (if timing cfg
            then (case compute_Tvol_coef net of
                    Inl e \<Rightarrow> Inl e
                  | Inr tv \<Rightarrow> Inr (s\<lparr>Tvol_coef := tv\<rparr>))
            else Inr s) of
        Inl e \<Rightarrow> Inl e
      | Inr s0 \<Rightarrow>
          (case setup_inlets net cfg s0 1 (inlets cfg) of
             Inl e \<Rightarrow> Inl e
           | Inr s' \<Rightarrow>
               Inr (s'\<lparr>tseq := tseq s' + 1, pseq := pseq s' + 1, current_cluster := 0\<rparr>)))"


subsection \<open>Choosing the cluster that fires\<close>

text \<open>
  Timed mode: \<open>1 + haines_time.tolist().index(min(haines_time))\<close>, and the clock is
  set to that minimum.  \<open>min\<close> of an empty array raises ValueError.
\<close>

definition first_index :: "real list \<Rightarrow> real \<Rightarrow> nat" where
  "first_index xs v = length (takeWhile (\<lambda>x. x \<noteq> v) xs)"

definition select_timed :: "ip_state \<Rightarrow> py_error + ip_state" where
  "select_timed s =
     (case haines_time s of
        [] \<Rightarrow> Inl ValueError
      | x # xs \<Rightarrow>
          (let m = fold min xs x
           in Inr (s\<lparr>current_cluster := 1 + first_index (haines_time s) m, sim_time := m\<rparr>)))"

text \<open>
  Untimed mode: the loop \<open>while condition == 0\<close> of \<open>_do_inner_iteration_stage\<close>.
  It ends only by finding \<open>active[cnum-1] == 1\<close>; the test \<open>loop_count > 1\<close>
  writes a log line and changes nothing.  \<open>None\<close> is the loop that never ends.
\<close>

partial_function (option) scan_loop ::
  "nat list \<Rightarrow> nat \<Rightarrow> nat \<Rightarrow> nat \<Rightarrow> nat \<Rightarrow> (py_error + nat) option" where
  "scan_loop act clusterCount original_cluster cnum loop_count =
     (let cnum1 = (if cnum > clusterCount then 1 else cnum) in
      if length act \<le> cnum1 - 1 then Some (Inl IndexError)
      else if act ! (cnum1 - 1) = 1 then Some (Inr cnum1)
      else scan_loop act clusterCount original_cluster (cnum1 + 1)
             (if cnum1 = original_cluster then loop_count + 1 else loop_count))"

definition select_untimed :: "run_args \<Rightarrow> ip_state \<Rightarrow> (py_error + ip_state) option" where
  "select_untimed cfg s =
     (case scan_loop (active s) (length (inlets cfg)) (current_cluster s)
             (current_cluster s + 1) 0 of
        None \<Rightarrow> None
      | Some (Inl e) \<Rightarrow> Some (Inl e)
      | Some (Inr c) \<Rightarrow> Some (Inr (s\<lparr>current_cluster := c\<rparr>)))"

subsection \<open>One invasion event\<close>

text \<open>Lines 406 to 411: the popped throat is stamped.\<close>

definition mark_throat :: "run_args \<Rightarrow> nat \<Rightarrow> ip_state \<Rightarrow> ip_state" where
  "mark_throat cfg tinvade s =
     (let c = current_cluster s;
          s1 = s\<lparr>throat_inv_seq := (throat_inv_seq s)[tinvade := tseq s],
                 seq_log := seq_log s @ [tseq s]\<rparr>
      in if timing cfg
         then s1\<lparr>throat_inv_time := (throat_inv_time s1)[tinvade := sim_time s1],
                 vol_coef := (vol_coef s1)[c - 1 :=
                    vol_coef s1 ! (c - 1) - Tvol_coef s1 ! tinvade]\<rparr>
         else s1)"

text \<open>
  Lines 426 to 484: the two pores carry different labels, two clusters merge.
  \<open>current_cluster\<close> is already the smaller canonical number, \<open>maxCluster\<close> the
  larger one.  The block is given in four parts, in the order of the source: the labels
  (lines 436 to 439), the throat lists and heaps (441 to 445), the volumes and the flow
  rate (447 to 455, timing only), and the activity flags with the sentinel times
  (461 to 484).
\<close>

definition merge_labels :: "nat \<Rightarrow> ip_state \<Rightarrow> ip_state" where
  "merge_labels maxCluster s =
     s\<lparr>transform := relabel maxCluster (current_cluster s) (transform s),
       pore_cluster_final := relabel maxCluster (current_cluster s) (pore_cluster_final s),
       throat_cluster_final :=
         relabel maxCluster (current_cluster s) (throat_cluster_final s)\<rparr>"

definition merge_frontiers :: "nat \<Rightarrow> ip_state \<Rightarrow> ip_state" where
  "merge_frontiers maxCluster s =
     (let c = current_cluster s;
          s2 = s\<lparr>tlists := (tlists s)[c - 1 :=
                     tlists s ! (c - 1) @ tlists s ! (maxCluster - 1)]\<rparr>;
          s3 = s2\<lparr>tlists := (tlists s2)[maxCluster - 1 := []]\<rparr>
      in s3\<lparr>tpoints := (tpoints s3)[c - 1 :=
                 heap_merge (tpoints s3 ! (c - 1)) (tpoints s3 ! (maxCluster - 1))]\<rparr>)"

definition merge_volumes :: "nat \<Rightarrow> ip_state \<Rightarrow> ip_state" where
  "merge_volumes maxCluster s =
     (let c = current_cluster s;
          a1 = s\<lparr>vol_coef := (vol_coef s)[c - 1 :=
                     vol_coef s ! (c - 1) + vol_coef s ! (maxCluster - 1)]\<rparr>;
          a2 = a1\<lparr>vol_coef := (vol_coef a1)[maxCluster - 1 := 0]\<rparr>;
          a3 = a2\<lparr>pore_volume := (pore_volume a2)[c - 1 :=
                     pore_volume a2 ! (c - 1) + pore_volume a2 ! (maxCluster - 1)]\<rparr>;
          a4 = a3\<lparr>pore_volume := (pore_volume a3)[maxCluster - 1 := 0]\<rparr>;
          a5 = a4\<lparr>flow_rate := (flow_rate a4)[c - 1 :=
                     flow_rate a4 ! (c - 1) + flow_rate a4 ! (maxCluster - 1)]\<rparr>
      in a5\<lparr>flow_rate := (flow_rate a5)[maxCluster - 1 := 0]\<rparr>)"

definition merge_activity :: "run_args \<Rightarrow> nat \<Rightarrow> ip_state \<Rightarrow> ip_state" where
  "merge_activity cfg maxCluster s =
     (let c = current_cluster s;
          s6 = (if active s ! (maxCluster - 1) + active s ! (c - 1) < 2
                then (let b1 = s\<lparr>active := (active s)[maxCluster - 1 := 0]\<rparr>;
                          b2 = b1\<lparr>active := (active b1)[c - 1 := 0]\<rparr>
                      in if timing cfg
                         then b2\<lparr>haines_time := (haines_time b2)[c - 1 := sentinel]\<rparr>
                         else b2)
                else s);
          s7 = (if timing cfg
                then s6\<lparr>haines_time := (haines_time s6)[maxCluster - 1 := sentinel]\<rparr>
                else s6);
          s8 = s7\<lparr>active := (active s7)[maxCluster - 1 := 0]\<rparr>
      in s8\<lparr>tpoints := (tpoints s8)[maxCluster - 1 := []]\<rparr>)"

definition merge_clusters :: "run_args \<Rightarrow> nat \<Rightarrow> ip_state \<Rightarrow> ip_state" where
  "merge_clusters cfg maxCluster s =
     (let s4 = merge_frontiers maxCluster (merge_labels maxCluster s);
          s5 = (if timing cfg then merge_volumes maxCluster s4 else s4)
      in merge_activity cfg maxCluster s5)"

text \<open>Lines 416 to 484: both pores of the throat are invaded already.\<close>

definition both_invaded :: "network \<Rightarrow> run_args \<Rightarrow> nat \<Rightarrow> ip_state \<Rightarrow> ip_state" where
  "both_invaded net cfg tinvade s =
     (let Pores = conns net ! tinvade;
          clusters0 = transform s ! (pore_cluster_final s ! fst Pores - 1);
          clusters1 = transform s ! (pore_cluster_final s ! snd Pores - 1);
          s1 = s\<lparr>NewPore := - 1, current_cluster := min clusters0 clusters1\<rparr>;
          s2 = s1\<lparr>throat_cluster_final :=
                    (throat_cluster_final s1)[tinvade := current_cluster s1]\<rparr>
      in if pore_cluster_final s2 ! fst Pores \<noteq> pore_cluster_final s2 ! snd Pores
         then merge_clusters cfg (max clusters0 clusters1) s2
         else s2)"

text \<open>
  Lines 510 to 523: the loop over the throats of the new pore.  A throat that is not in
  the cluster's throat list is pushed on its heap and appended to the list.
\<close>

fun add_neighbors :: "network \<Rightarrow> run_args \<Rightarrow> nat list \<Rightarrow> ip_state \<Rightarrow> ip_state" where
  "add_neighbors net cfg [] s = s"
| "add_neighbors net cfg (j # rest) s =
     (let c = current_cluster s in
      if j \<notin> set (tlists s ! (c - 1))
      then (let s1 = s\<lparr>tpoints := (tpoints s)[c - 1 :=
                        heappush (tpoints s ! (c - 1)) (Pc_entry net ! j, j)]\<rparr>;
                s2 = s1\<lparr>tlists := (tlists s1)[c - 1 := tlists s1 ! (c - 1) @ [j]]\<rparr>;
                s3 = (if timing cfg
                      then s2\<lparr>vol_coef := (vol_coef s2)[c - 1 :=
                              vol_coef s2 ! (c - 1) + Tvol_coef s2 ! j]\<rparr>
                      else s2)
            in add_neighbors net cfg rest s3)
      else add_neighbors net cfg rest s)"

text \<open>
  Lines 487 to 506: one pore of the throat is not invaded and is taken by the current
  cluster.  \<open>Pores[pore_cluster_final[Pores]==0][0]\<close> is the first of the two that is
  not invaded.
\<close>

definition label_new_pore :: "network \<Rightarrow> run_args \<Rightarrow> nat \<Rightarrow> ip_state \<Rightarrow> ip_state" where
  "label_new_pore net cfg tinvade s =
     (let Pores = conns net ! tinvade;
          c = current_cluster s;
          p = (if pore_cluster_final s ! fst Pores = 0 then fst Pores else snd Pores);
          s3 = s\<lparr>throat_cluster_final := (throat_cluster_final s)[tinvade := c],
                 NewPore := int p,
                 pore_cluster_final := (pore_cluster_final s)[p := c],
                 pore_cluster_original := (pore_cluster_original s)[p := c],
                 pore_inv_seq := (pore_inv_seq s)[p := tseq s],
                 seq_log := seq_log s @ [tseq s]\<rparr>
      in if timing cfg
         then s3\<lparr>pore_inv_time := (pore_inv_time s3)[p := sim_time s3],
                 pore_volume := (pore_volume s3)[c - 1 :=
                    pore_volume s3 ! (c - 1) + pore_volumes net ! p]\<rparr>
         else s3)"

text \<open>Lines 487 to 523: the new pore, then the throats around it.\<close>

definition new_pore :: "network \<Rightarrow> run_args \<Rightarrow> nat \<Rightarrow> ip_state \<Rightarrow> ip_state" where
  "new_pore net cfg tinvade s =
     (let s6 = label_new_pore net cfg tinvade s
      in add_neighbors net cfg (find_neighbor_throats net [nat (NewPore s6)]) s6)"

text \<open>
  Lines 527 to 536: the loop that pops entries of throats labelled by some cluster.
  It works on the current cluster's heap and \<open>vol_coef\<close> entry, given the throat
  labels, the coefficients and the timing flag; the source enters it with a non-empty
  heap and leaves it by \<open>break\<close> when the heap runs empty.
\<close>

function cleanup_loop ::
  "nat list \<Rightarrow> real list \<Rightarrow> bool \<Rightarrow> entry list \<Rightarrow> real \<Rightarrow> entry list \<times> real" where
  "cleanup_loop tcf Tv tm heap vc =
     (case heap of
        [] \<Rightarrow> (heap, vc)
      | top_entry # _ \<Rightarrow>
          if tcf ! snd top_entry > 0 then
            (case heappop heap of
               Inl e \<Rightarrow> (heap, vc)
             | Inr (tremove, heap') \<Rightarrow>
                 (let vc' = (if tm then vc - Tv ! snd tremove else vc)
                  in if heap' = [] then (heap', vc')
                     else cleanup_loop tcf Tv tm heap' vc'))
          else (heap, vc))"
  by pat_completeness auto
termination
  by (relation "measure (\<lambda>(tcf, Tv, tm, heap, vc). length heap)")
     (auto dest: heappop_length)

declare cleanup_loop.simps [simp del]

text \<open>
  Lines 526 to 536: the heap of the current cluster is cleaned, and a heap that runs
  empty makes the cluster inactive.
\<close>

definition cleanup_frontier :: "run_args \<Rightarrow> ip_state \<Rightarrow> ip_state" where
  "cleanup_frontier cfg s =
     (let c = current_cluster s in
      if tpoints s ! (c - 1) \<noteq> [] then
        (let (heap', vc') = cleanup_loop (throat_cluster_final s) (Tvol_coef s) (timing cfg)
                              (tpoints s ! (c - 1)) (vol_coef s ! (c - 1));
             s1 = s\<lparr>tpoints := (tpoints s)[c - 1 := heap']\<rparr>;
             s2 = (if timing cfg then s1\<lparr>vol_coef := (vol_coef s1)[c - 1 := vc']\<rparr> else s1)
         in if heap' = [] then s2\<lparr>active := (active s2)[c - 1 := 0]\<rparr> else s2)
      else s)"

text \<open>
  Lines 537 to 546: the top of a heap that is not empty is the cluster's next jump.
  Line 546 hands \<open>self._cluster_data['haines_time']\<close> to the logger, in this block
  and outside the test for timing; with timing off the dictionary has no such key.
\<close>

definition next_jump :: "run_args \<Rightarrow> ip_state \<Rightarrow> py_error + ip_state" where
  "next_jump cfg s =
     (let c = current_cluster s in
      if tpoints s ! (c - 1) \<noteq> [] then
        (let top_entry = tpoints s ! (c - 1) ! 0;
             s4 = s\<lparr>haines_throat := (haines_throat s)[c - 1 := snd top_entry]\<rparr>
         in if timing cfg
            then (let s5 = s4\<lparr>haines_pressure := (haines_pressure s4)[c - 1 := fst top_entry]\<rparr>
                  in Inr (s5\<lparr>cap_volume := (cap_volume s5)[c - 1 :=
                                haines_pressure s5 ! (c - 1) * vol_coef s5 ! (c - 1)]\<rparr>))
            else Inl KeyError)
      else Inr s)"

text \<open>Lines 526 to 546: the next Haines jump of the current cluster.\<close>

definition next_haines :: "run_args \<Rightarrow> ip_state \<Rightarrow> py_error + ip_state" where
  "next_haines cfg s = next_jump cfg (cleanup_frontier cfg s)"

text \<open>Lines 547 to 553: an empty heap retires the cluster.\<close>

definition retire_empty :: "run_args \<Rightarrow> ip_state \<Rightarrow> ip_state" where
  "retire_empty cfg s =
     (let c = current_cluster s in
      if tpoints s ! (c - 1) = []
      then (let a = s\<lparr>active := (active s)[c - 1 := 0]\<rparr>
            in if timing cfg
               then a\<lparr>haines_time := (haines_time a)[c - 1 := sentinel]\<rparr>
               else a)
      else s)"

text \<open>
  Lines 554 to 558: the time of the next jump of a cluster that is still active, not
  earlier than the clock.
\<close>

definition jump_time :: "run_args \<Rightarrow> ip_state \<Rightarrow> py_error + ip_state" where
  "jump_time cfg s =
     (let c = current_cluster s in
      if timing cfg then
        (if active s ! (c - 1) = 1 \<and> flow_rate s ! (c - 1) = 0 then Inl NotFinite
         else (let s2 = (if active s ! (c - 1) = 1
                         then s\<lparr>haines_time := (haines_time s)[c - 1 :=
                                 (pore_volume s ! (c - 1) + cap_volume s ! (c - 1))
                                   / flow_rate s ! (c - 1)]\<rparr>
                         else s)
               in Inr (if haines_time s2 ! (c - 1) < sim_time s2
                       then s2\<lparr>haines_time := (haines_time s2)[c - 1 := sim_time s2]\<rparr>
                       else s2)))
      else Inr s)"

definition finish_iteration :: "run_args \<Rightarrow> ip_state \<Rightarrow> py_error + ip_state" where
  "finish_iteration cfg s = jump_time cfg (retire_empty cfg s)"

text \<open>
  \<open>_do_one_inner_iteration\<close>, lines 392 to 411: pop the current cluster's heap
  (IndexError when it is empty) and stamp the throat; the result is the throat and the
  state.
\<close>

definition pop_throat :: "run_args \<Rightarrow> ip_state \<Rightarrow> py_error + (nat \<times> ip_state)" where
  "pop_throat cfg s =
     (let c = current_cluster s in
      case heappop (tpoints s ! (c - 1)) of
        Inl e \<Rightarrow> Inl e
      | Inr (item, heap') \<Rightarrow>
          (let tinvade = snd item;
               s1 = s\<lparr>tpoints := (tpoints s)[c - 1 := heap']\<rparr>
           in Inr (tinvade, mark_throat cfg tinvade s1)))"

text \<open>Lines 392 to 523: the event, with the branch the two pores decide.\<close>

definition invade_throat :: "network \<Rightarrow> run_args \<Rightarrow> ip_state \<Rightarrow> py_error + ip_state" where
  "invade_throat net cfg s =
     (case pop_throat cfg s of
        Inl e \<Rightarrow> Inl e
      | Inr (tinvade, s2) \<Rightarrow>
          (let Pores = conns net ! tinvade
           in Inr (if pore_cluster_final s2 ! fst Pores \<noteq> 0
                      \<and> pore_cluster_final s2 ! snd Pores \<noteq> 0
                   then both_invaded net cfg tinvade s2
                   else new_pore net cfg tinvade s2)))"

text \<open>Lines 524 to 558: what follows the branch.\<close>

definition end_of_event :: "run_args \<Rightarrow> ip_state \<Rightarrow> py_error + ip_state" where
  "end_of_event cfg s =
     (case next_haines cfg s of
        Inl e \<Rightarrow> Inl e
      | Inr s' \<Rightarrow> finish_iteration cfg s')"

text \<open>\<open>_do_one_inner_iteration\<close> as a whole.\<close>

definition do_one_inner_iteration ::
  "network \<Rightarrow> run_args \<Rightarrow> ip_state \<Rightarrow> py_error + ip_state" where
  "do_one_inner_iteration net cfg s =
     (case invade_throat net cfg s of
        Inl e \<Rightarrow> Inl e
      | Inr s3 \<Rightarrow> end_of_event cfg s3)"

text \<open>
  \<open>_do_inner_iteration_stage\<close>.  \<open>None\<close> is the untimed scan that never returns.
\<close>

definition select_cluster :: "run_args \<Rightarrow> ip_state \<Rightarrow> (py_error + ip_state) option" where
  "select_cluster cfg s = (if timing cfg then Some (select_timed s) else select_untimed cfg s)"

text \<open>Lines 379 to 382: the counters after the event.\<close>

definition count_event :: "nat \<Rightarrow> ip_state \<Rightarrow> ip_state" where
  "count_event plast s =
     (let pnew = count_nonzero (pore_cluster_final s);
          s3 = s\<lparr>tseq := tseq s + 1\<rparr>
      in if pnew > plast then s3\<lparr>pseq := pseq s3 + 1\<rparr> else s3)"

definition do_inner_iteration_stage ::
  "network \<Rightarrow> run_args \<Rightarrow> ip_state \<Rightarrow> (py_error + ip_state) option" where
  "do_inner_iteration_stage net cfg s =
     (let plast = count_nonzero (pore_cluster_final s) in
      case select_cluster cfg s of
        None \<Rightarrow> None
      | Some (Inl e) \<Rightarrow> Some (Inl e)
      | Some (Inr s1) \<Rightarrow>
          (case do_one_inner_iteration net cfg s1 of
             Inl e \<Rightarrow> Some (Inl e)
           | Inr s2 \<Rightarrow> Some (Inr (count_event plast s2))))"

subsection \<open>Termination test and the outer loop\<close>

text \<open>
  Entry \<open>c - 1\<close> of a cluster array is the last entry when \<open>c\<close> is 0, as a numpy
  index of \<open>-1\<close> is.
\<close>

definition upd_cluster :: "'a list \<Rightarrow> nat \<Rightarrow> 'a \<Rightarrow> 'a list" where
  "upd_cluster xs c v = (if c = 0 then xs[length xs - 1 := v] else xs[c - 1 := v])"

text \<open>
  \<open>self._NewPore in self._outlets\<close> (line 585).  A single outlet has been wrapped into
  a list of its own (lines 149 and 150), so that the pore is compared with the list
  \<open>[out]\<close>: a numpy integer equals it when it equals \<open>out\<close>, and the Python
  integer \<open>-1\<close> that \<open>_NewPore\<close> is when no pore was invaded never does.
\<close>

definition outlet_reached :: "run_args \<Rightarrow> ip_state \<Rightarrow> bool" where
  "outlet_reached cfg s =
     (if length (outlets cfg) = 1
      then 0 \<le> NewPore s \<and> NewPore s = hd (outlets cfg)
      else NewPore s \<in> set (outlets cfg))"

text \<open>
  \<open>_condition_update\<close> from line 584 on: breakthrough at an outlet pore and the test
  for the end of the run.  Its progress part is modelled apart (\<open>progress_update\<close>).
\<close>

definition condition_update :: "run_args \<Rightarrow> ip_state \<Rightarrow> ip_state" where
  "condition_update cfg s =
     (let s1 = (if outlet_reached cfg s then
                  (case end_condition cfg of
                     Breakthrough \<Rightarrow>
                       (let a = s\<lparr>active := upd_cluster (active s) (current_cluster s) 0\<rparr>
                        in if timing cfg
                           then a\<lparr>haines_time :=
                                    upd_cluster (haines_time a) (current_cluster a) sentinel\<rparr>
                           else a)
                   | Total \<Rightarrow> s\<lparr>brkevent := brkevent s @ [NewPore s]\<rparr>)
                else s)
      in if sum_list (active s1) = 0 then s1\<lparr>condition := False\<rparr> else s1)"

definition do_one_outer_iteration ::
  "network \<Rightarrow> run_args \<Rightarrow> ip_state \<Rightarrow> (py_error + ip_state) option" where
  "do_one_outer_iteration net cfg s =
     (case do_inner_iteration_stage net cfg s of
        None \<Rightarrow> None
      | Some (Inl e) \<Rightarrow> Some (Inl e)
      | Some (Inr s') \<Rightarrow> Some (Inr (condition_update cfg s')))"

text \<open>
  The start of \<open>_do_outer_iteration_stage\<close>: setup, then the first termination test.
\<close>

definition start_run :: "network \<Rightarrow> run_args \<Rightarrow> py_error + ip_state" where
  "start_run net cfg =
     (case setup_for_IP net cfg (initial_state net cfg) of
        Inl e \<Rightarrow> Inl e
      | Inr s \<Rightarrow> Inr (condition_update cfg s))"

text \<open>
  \<open>while self._condition: self._do_one_outer_iteration()\<close>, with a bound on the number
  of iterations: \<open>None\<close> when the bound is used up with the condition still set, or when
  an iteration does not return.
\<close>

fun outer_loop ::
  "nat \<Rightarrow> network \<Rightarrow> run_args \<Rightarrow> ip_state \<Rightarrow> (py_error + ip_state) option" where
  "outer_loop 0 net cfg s = (if condition s then None else Some (Inr s))"
| "outer_loop (Suc n) net cfg s =
     (if condition s then
        (case do_one_outer_iteration net cfg s of
           None \<Rightarrow> None
         | Some (Inl e) \<Rightarrow> Some (Inl e)
         | Some (Inr s') \<Rightarrow> outer_loop n net cfg s')
      else Some (Inr s))"

definition run_engine :: "nat \<Rightarrow> network \<Rightarrow> run_args \<Rightarrow> (py_error + ip_state) option" where
  "run_engine n net cfg =
     (case start_run net cfg of
        Inl e \<Rightarrow> Some (Inl e)
      | Inr s \<Rightarrow> outer_loop n net cfg s)"

text \<open>
  The state after exactly \<open>n\<close> passes of the loop body, when the loop makes that many.
\<close>

fun after_iterations ::
  "nat \<Rightarrow> network \<Rightarrow> run_args \<Rightarrow> (py_error + ip_state) option" where
  "after_iterations 0 net cfg = Some (start_run net cfg)"
| "after_iterations (Suc n) net cfg =
     (case after_iterations n net cfg of
        Some (Inr s) \<Rightarrow> (if condition s then do_one_outer_iteration net cfg s else None)
      | _ \<Rightarrow> None)"


subsection \<open>Saturation pass and the occupancy query\<close>

text \<open>
  The saturation values are numpy floats, and their test against the cutoff of the
  occupancy query depends on how each sum and quotient is rounded and on what a quotient
  with divisor zero is.  The float type and its operations are parameters here: the
  float of a number, the sum and the quotient of two floats, \<open>np.sum\<close> of an array
  (whose order of additions is numpy's) and the comparison \<open><=\<close>.
\<close>

record 'f np_ops =
  np_float :: "real \<Rightarrow> 'f"
  np_plus :: "'f \<Rightarrow> 'f \<Rightarrow> 'f"
  np_divide :: "'f \<Rightarrow> 'f \<Rightarrow> 'f"
  np_sum :: "'f list \<Rightarrow> 'f"
  np_le :: "'f \<Rightarrow> 'f \<Rightarrow> bool"

text \<open>Python's \<open>sum\<close>: from 0 on, one element after the other.\<close>

definition py_sum :: "'f np_ops \<Rightarrow> 'f list \<Rightarrow> 'f" where
  "py_sum ops xs = fold (\<lambda>x acc. np_plus ops acc x) xs (np_float ops 0)"

text \<open>\<open>xs[idxs] = v\<close> for an index array.\<close>

definition set_at :: "nat list \<Rightarrow> 'a \<Rightarrow> 'a list \<Rightarrow> 'a list" where
  "set_at idxs v xs = fold (\<lambda>i ys. ys[i := v]) idxs xs"

record 'f sat_fields =
  sat :: 'f
  pore_inv_sat :: "'f list"
  throat_inv_sat :: "'f list"

text \<open>One pass of \<open>for i in range(1, self._tseq+1)\<close> (lines 322 to 327).\<close>

definition sat_step ::
  "'f np_ops \<Rightarrow> network \<Rightarrow> ip_state \<Rightarrow> 'f \<Rightarrow> nat \<Rightarrow> 'f sat_fields \<Rightarrow> 'f sat_fields" where
  "sat_step ops net s v_total i f =
     (let inv_pores = where_eq (pore_inv_seq s) i;
          inv_throats = where_eq (throat_inv_seq s) i;
          new_sat = np_divide ops
                      (np_plus ops
                         (py_sum ops (map (\<lambda>p. np_float ops (pore_volumes net ! p)) inv_pores))
                         (py_sum ops
                            (map (\<lambda>t. np_float ops (throat_volumes net ! t)) inv_throats)))
                      v_total;
          sat' = np_plus ops (sat f) new_sat
      in \<lparr> sat = sat',
           pore_inv_sat = set_at inv_pores sat' (pore_inv_sat f),
           throat_inv_sat = set_at inv_throats sat' (throat_inv_sat f) \<rparr>)"

text \<open>Lines 317 to 327 of \<open>_do_outer_iteration_stage\<close>.\<close>

definition saturation_pass :: "'f np_ops \<Rightarrow> network \<Rightarrow> ip_state \<Rightarrow> 'f sat_fields" where
  "saturation_pass ops net s =
     (let v_total = np_plus ops (np_sum ops (map (np_float ops) (pore_volumes net)))
                                (np_sum ops (map (np_float ops) (throat_volumes net)));
          f0 = \<lparr> sat = np_float ops 0,
                 pore_inv_sat = replicate (num_pores net) (np_float ops 1),
                 throat_inv_sat = replicate (length (conns net)) (np_float ops 1) \<rparr>
      in fold (sat_step ops net s v_total) [1 ..< tseq s + 1] f0)"

text \<open>
  \<open>update_results\<close>, lines 624 to 642: the sequence cutoff, then the two masks
  \<open>(seq > 0) & (seq <= IPseq)\<close>.  With a saturation cutoff the sequence cutoff is the
  largest \<open>pore.IP_inv_seq\<close> among the pores whose saturation is within the cutoff.
\<close>

definition seq_cutoff ::
  "'f np_ops \<Rightarrow> ip_state \<Rightarrow> 'f sat_fields \<Rightarrow> nat option \<Rightarrow> 'f option \<Rightarrow> nat" where
  "seq_cutoff ops s f IPseq IPsat =
     (case IPseq of
        Some q \<Rightarrow> q
      | None \<Rightarrow>
          (case IPsat of
             Some cutoff \<Rightarrow>
               (let sat_pores = filter (\<lambda>p. np_le ops (pore_inv_sat f ! p) cutoff)
                                  [0 ..< length (pore_inv_sat f)]
                in case map (\<lambda>p. pore_inv_seq s ! p) sat_pores of
                     [] \<Rightarrow> 0
                   | q # qs \<Rightarrow> fold max qs q)
           | None \<Rightarrow> tseq s))"

definition update_results ::
  "'f np_ops \<Rightarrow> ip_state \<Rightarrow> 'f sat_fields \<Rightarrow> nat option \<Rightarrow> 'f option
     \<Rightarrow> bool list \<times> bool list" where
  "update_results ops s f IPseq IPsat =
     (let q = seq_cutoff ops s f IPseq IPsat;
          inv_pores = map (\<lambda>x. x > 0 \<and> x \<le> q) (pore_inv_seq s);
          inv_throats = map (\<lambda>x. x > 0 \<and> x \<le> q) (throat_inv_seq s)
      in (inv_pores, inv_throats))"

subsection \<open>Progress report\<close>

text \<open>
  The progress fields are numpy floats.  A quotient with divisor zero does not raise: it
  is NaN for \<open>0/0\<close> and an infinity otherwise, and every comparison with NaN is false.
  The values below are the finite reals and these three.
\<close>

datatype npfloat = Fin real | NaN | PInf | NInf

fun np_div :: "npfloat \<Rightarrow> npfloat \<Rightarrow> npfloat" where
  "np_div (Fin a) (Fin b) =
     (if b \<noteq> 0 then Fin (a / b) else if a = 0 then NaN else if a > 0 then PInf else NInf)"
| "np_div NaN _ = NaN"
| "np_div _ NaN = NaN"
| "np_div (Fin a) _ = Fin 0"
| "np_div PInf (Fin b) = (if b \<ge> 0 then PInf else NInf)"
| "np_div NInf (Fin b) = (if b \<ge> 0 then NInf else PInf)"
| "np_div _ _ = NaN"

fun np_mul :: "npfloat \<Rightarrow> npfloat \<Rightarrow> npfloat" where
  "np_mul (Fin a) (Fin b) = Fin (a * b)"
| "np_mul NaN _ = NaN"
| "np_mul _ NaN = NaN"
| "np_mul (Fin a) PInf = (if a = 0 then NaN else if a > 0 then PInf else NInf)"
| "np_mul (Fin a) NInf = (if a = 0 then NaN else if a > 0 then NInf else PInf)"
| "np_mul PInf (Fin b) = (if b = 0 then NaN else if b > 0 then PInf else NInf)"
| "np_mul NInf (Fin b) = (if b = 0 then NaN else if b > 0 then NInf else PInf)"
| "np_mul PInf PInf = PInf"
| "np_mul NInf NInf = PInf"
| "np_mul _ _ = NInf"

fun np_add :: "npfloat \<Rightarrow> npfloat \<Rightarrow> npfloat" where
  "np_add (Fin a) (Fin b) = Fin (a + b)"
| "np_add NaN _ = NaN"
| "np_add _ NaN = NaN"
| "np_add (Fin a) x = x"
| "np_add x (Fin b) = x"
| "np_add PInf PInf = PInf"
| "np_add NInf NInf = NInf"
| "np_add _ _ = NaN"

fun np_gt :: "npfloat \<Rightarrow> npfloat \<Rightarrow> bool" where
  "np_gt (Fin a) (Fin b) = (a > b)"
| "np_gt NaN _ = False"
| "np_gt _ NaN = False"
| "np_gt PInf PInf = False"
| "np_gt PInf _ = True"
| "np_gt NInf _ = False"
| "np_gt (Fin a) NInf = True"
| "np_gt (Fin a) PInf = False"

text \<open>\<open>np.rint\<close> rounds a half to the even neighbour; \<open>np.round(x, decimals=1)\<close>.\<close>

definition rint :: "real \<Rightarrow> real" where
  "rint x =
     (let f = floor x; d = x - of_int f
      in if d < 1 / 2 then of_int f
         else if d > 1 / 2 then of_int (f + 1)
         else if even f then of_int f else of_int (f + 1))"

fun np_round1 :: "npfloat \<Rightarrow> npfloat" where
  "np_round1 (Fin a) = Fin (rint (a * 10) / 10)"
| "np_round1 x = x"

fun np_floor :: "npfloat \<Rightarrow> npfloat" where
  "np_floor (Fin a) = Fin (of_int (floor a))"
| "np_floor x = x"

text \<open>
  Reading \<open>coords[i]\<close> with a Python index (a negative one counts from the end), the
  mean of the selected coordinates, and the Euclidean distance of lines 288 and 289.
  The selections are not empty.
\<close>

definition py_nth :: "'a list \<Rightarrow> int \<Rightarrow> 'a" where
  "py_nth xs i = xs ! nat (if i < 0 then int (length xs) + i else i)"

definition centroid :: "(real \<times> real \<times> real) list \<Rightarrow> real \<times> real \<times> real" where
  "centroid ps =
     (sum_list (map fst ps) / real (length ps),
      sum_list (map (fst \<circ> snd) ps) / real (length ps),
      sum_list (map (snd \<circ> snd) ps) / real (length ps))"

definition distance :: "real \<times> real \<times> real \<Rightarrow> real \<times> real \<times> real \<Rightarrow> real" where
  "distance a b =
     (let dx = (fst a - fst b) * (fst a - fst b);
          dy = (fst (snd a) - fst (snd b)) * (fst (snd a) - fst (snd b));
          dz = (snd (snd a) - snd (snd b)) * (snd (snd a) - snd (snd b))
      in sqrt (dx + dy + dz))"

record progress =
  outlet_position :: "real \<times> real \<times> real"
  initial_distance :: real
  current_distance :: real
  percent_complete :: npfloat
  rough_complete :: npfloat
  printed :: "npfloat list"

definition rough_increment :: "run_args \<Rightarrow> real" where
  "rough_increment cfg = (if report cfg = 0 then 100 else report cfg)"

text \<open>Lines 285 to 297 of \<open>_setup_for_IP\<close>.\<close>

definition setup_progress :: "network \<Rightarrow> run_args \<Rightarrow> progress" where
  "setup_progress net cfg =
     (let outp = centroid (map (py_nth (coords net)) (outlets cfg));
          inlet_position = centroid (map (\<lambda>i. coords net ! i) (inlets cfg));
          init = distance outp inlet_position;
          cur = init
      in \<lparr> outlet_position = outp,
           initial_distance = init,
           current_distance = cur,
           percent_complete =
             np_round1 (np_mul (np_div (Fin (init - cur)) (Fin init)) (Fin 100)),
           rough_complete = Fin 0,
           printed = [Fin 0] \<rparr>)"

text \<open>
  Lines 564 to 581 of \<open>_condition_update\<close>, given the engine state it reads
  (\<open>NewPore\<close> and the pore labels).
\<close>

definition progress_update :: "network \<Rightarrow> run_args \<Rightarrow> ip_state \<Rightarrow> progress \<Rightarrow> progress" where
  "progress_update net cfg s pr =
     (let pr1 =
            (case end_condition cfg of
               Breakthrough \<Rightarrow>
                 (let newpore_position = py_nth (coords net) (NewPore s);
                      newpore_distance = distance (outlet_position pr) newpore_position
                  in if newpore_distance < current_distance pr
                     then pr\<lparr>percent_complete :=
                               np_round1 (np_mul (np_div
                                 (Fin (initial_distance pr - newpore_distance))
                                 (Fin (initial_distance pr))) (Fin 100)),
                             current_distance := newpore_distance\<rparr>
                     else pr)
             | Total \<Rightarrow>
                 pr\<lparr>percent_complete :=
                      np_round1 (np_mul (np_div
                        (Fin (real (length (filter (\<lambda>x. x > 0) (pore_cluster_final s)))))
                        (Fin (real (num_pores net)))) (Fin 100))\<rparr>)
      in if np_gt (percent_complete pr1)
                  (np_add (rough_complete pr1) (Fin (rough_increment cfg)))
         then (let r = np_mul (np_floor (np_div (percent_complete pr1)
                                  (Fin (rough_increment cfg))))
                              (Fin (rough_increment cfg))
               in pr1\<lparr>rough_complete := r, printed := printed pr1 @ [r]\<rparr>)
         else pr1)"


subsection \<open>Example networks\<close>

text \<open>
  A chain of three pores \<open>0 - 1 - 2\<close> invaded from pore 0 until pore 1 is reached, and a
  triangle of three pores invaded from pores 0 and 1, until nothing is left or until
  pore 2 is reached.  Timing is on in these runs.  The throats of \<open>net_chain0\<close> and
  \<open>net_tri\<close> have diameter 0, so that their volume coefficients are 0 and every time
  of the run is a small integer; those of \<open>net_tri_wide\<close> have diameter \<open>2 ^ 16\<close>.
  \<open>net_tri2\<close> has a larger pore 0, so that the cluster of pore 1 fires first.
\<close>

definition net_chain :: network where
  "net_chain = \<lparr> num_pores = 3, conns = [(0, 1), (1, 2)],
     coords = [(0, 0, 0), (1, 0, 0), (2, 0, 0)],
     pore_volumes = [1, 1, 1], throat_volumes = [1, 1], tdia = [1, 1], Pc_entry = [1, 2] \<rparr>"

definition net_chain0 :: network where
  "net_chain0 = net_chain\<lparr>tdia := [0, 0]\<rparr>"

definition cfg_chain :: run_args where
  "cfg_chain = \<lparr> inlets = [0], outlets = [1], end_condition = Breakthrough,
     timing = True, inlet_flow = 1, report = 20 \<rparr>"

definition net_tri :: network where
  "net_tri = \<lparr> num_pores = 3, conns = [(0, 2), (1, 2), (0, 1)],
     coords = [(0, 0, 0), (1, 0, 0), (0, 1, 0)],
     pore_volumes = [1, 1, 1], throat_volumes = [1, 2, 2], tdia = [0, 0, 0],
     Pc_entry = [1, 2, 3] \<rparr>"

definition cfg_tri :: run_args where
  "cfg_tri = \<lparr> inlets = [0, 1], outlets = [2], end_condition = Total,
     timing = True, inlet_flow = 1, report = 20 \<rparr>"

definition cfg_tri_brk :: run_args where
  "cfg_tri_brk = cfg_tri\<lparr>end_condition := Breakthrough\<rparr>"

definition net_tri2 :: network where
  "net_tri2 = net_tri\<lparr>pore_volumes := [2, 1, 1]\<rparr>"

definition net_tri_wide :: network where
  "net_tri_wide = net_tri\<lparr>tdia := [65536, 65536, 65536]\<rparr>"

text \<open>The chain with pore 1 as the only inlet and the only outlet.\<close>

definition cfg_same :: run_args where
  "cfg_same = \<lparr> inlets = [1], outlets = [1], end_condition = Breakthrough,
     timing = False, inlet_flow = 1, report = 20 \<rparr>"

text \<open>
  Two pores and the throat between them, invaded from pore 0 with timing off: the one
  event of this run leaves the heap empty.
\<close>

definition net_pair :: network where
  "net_pair = \<lparr> num_pores = 2, conns = [(0, 1)],
     coords = [(0, 0, 0), (1, 0, 0)],
     pore_volumes = [1, 1], throat_volumes = [1], tdia = [1], Pc_entry = [1] \<rparr>"

definition cfg_pair :: run_args where
  "cfg_pair = \<lparr> inlets = [0], outlets = [1], end_condition = Breakthrough,
     timing = False, inlet_flow = 1, report = 20 \<rparr>"

text \<open>
  The state after a number of passes of the outer loop, the state a run ends in (the
  start state when it does not end within the bound), the throat popped by the next
  event of a state together with the state the branch of the event starts from, and the
  state in the middle of the next event, before the heap of the current cluster is
  cleaned.
\<close>

definition state_after :: "nat \<Rightarrow> network \<Rightarrow> run_args \<Rightarrow> ip_state" where
  "state_after n net cfg =
     (case after_iterations n net cfg of Some (Inr s) \<Rightarrow> s | _ \<Rightarrow> initial_state net cfg)"

definition final_state :: "nat \<Rightarrow> network \<Rightarrow> run_args \<Rightarrow> ip_state" where
  "final_state n net cfg =
     (case run_engine n net cfg of Some (Inr s) \<Rightarrow> s | _ \<Rightarrow> initial_state net cfg)"

definition popped :: "run_args \<Rightarrow> ip_state \<Rightarrow> nat \<times> ip_state" where
  "popped cfg s =
     (case select_cluster cfg s of
        Some (Inr s1) \<Rightarrow> (case pop_throat cfg s1 of Inr r \<Rightarrow> r | _ \<Rightarrow> (0, s))
      | _ \<Rightarrow> (0, s))"

definition before_cleanup :: "network \<Rightarrow> run_args \<Rightarrow> ip_state \<Rightarrow> ip_state" where
  "before_cleanup net cfg s =
     (case select_cluster cfg s of
        Some (Inr s1) \<Rightarrow> (case invade_throat net cfg s1 of Inr s2 \<Rightarrow> s2 | _ \<Rightarrow> s)
      | _ \<Rightarrow> s)"

text \<open>
  Float operations without rounding: what numpy computes as long as every result can
  be represented, as in the triangle, whose volumes add up to 8.
\<close>

fun np_le_fn :: "npfloat \<Rightarrow> npfloat \<Rightarrow> bool" where
  "np_le_fn (Fin a) (Fin b) = (a \<le> b)"
| "np_le_fn NaN _ = False"
| "np_le_fn _ NaN = False"
| "np_le_fn NInf _ = True"
| "np_le_fn _ PInf = True"
| "np_le_fn _ _ = False"

definition exact_ops :: "npfloat np_ops" where
  "exact_ops = \<lparr> np_float = Fin, np_plus = np_add, np_divide = np_div,
     np_sum = (\<lambda>xs. fold (\<lambda>x acc. np_add acc x) xs (Fin 0)), np_le = np_le_fn \<rparr>"

text \<open>Evaluation of the examples: the scan's equation is used as it stands.\<close>

declare scan_loop.simps [code]


section \<open>Properties\<close>

subsection \<open>The heap operations keep the entries\<close>

lemma mset_update_swap:
  "i < length xs \<Longrightarrow> j < length xs \<Longrightarrow> i \<noteq> j \<Longrightarrow>
   mset (xs[i := xs ! j, j := v]) = mset (xs[i := v])"
  by (simp add: mset_update nth_list_update)

lemma mset_siftdown_loop:
  "pos < length heap \<Longrightarrow>
   mset (siftdown_loop heap startpos pos newitem) = mset (heap[pos := newitem])"
proof (induction heap startpos pos newitem rule: siftdown_loop.induct)
  case (1 heap startpos pos newitem)
  show ?case
  proof (cases "pos > startpos \<and> tup_lt newitem (heap ! ((pos - 1) div 2))")
    case True
    then have pp: "(pos - 1) div 2 < pos" by auto
    with "1.prems" have ppl: "(pos - 1) div 2 < length heap" by simp
    have "mset (siftdown_loop heap startpos pos newitem) =
          mset (siftdown_loop (heap[pos := heap ! ((pos - 1) div 2)]) startpos ((pos - 1) div 2) newitem)"
      using True by (subst siftdown_loop.simps) (simp add: Let_def)
    also have "\<dots> = mset (heap[pos := heap ! ((pos - 1) div 2), (pos - 1) div 2 := newitem])"
      using "1.IH" [OF _ refl refl] True ppl by simp
    also have "\<dots> = mset (heap[pos := newitem])"
      using mset_update_swap [of pos heap "(pos - 1) div 2" newitem] "1.prems" ppl pp by simp
    finally show ?thesis .
  next
    case False
    then show ?thesis by (subst siftdown_loop.simps) (auto simp: Let_def)
  qed
qed

lemma mset_siftdown: "pos < length heap \<Longrightarrow> mset (siftdown heap startpos pos) = mset heap"
  by (simp add: siftdown_def mset_siftdown_loop)

lemma siftup_loop_props:
  "pos < length heap \<Longrightarrow> siftup_loop heap pos = (h, p) \<Longrightarrow>
   p < length heap \<and> length h = length heap \<and> mset (h[p := x]) = mset (heap[pos := x])"
proof (induction heap pos arbitrary: h p rule: siftup_loop.induct)
  case (1 heap pos)
  show ?case
  proof (cases "2 * pos + 1 < length heap")
    case True
    define cp where "cp = (if 2 * pos + 1 + 1 < length heap
                             \<and> \<not> tup_lt (heap ! (2 * pos + 1)) (heap ! (2 * pos + 1 + 1))
                          then 2 * pos + 1 + 1 else 2 * pos + 1)"
    have cpl: "cp < length heap" and cpne: "cp \<noteq> pos" using True by (auto simp: cp_def)
    have eq: "siftup_loop heap pos = siftup_loop (heap[pos := heap ! cp]) cp"
      using True by (subst siftup_loop.simps) (simp add: Let_def cp_def)
    with "1.prems" have r: "siftup_loop (heap[pos := heap ! cp]) cp = (h, p)" by simp
    note ih0 = "1.IH" [OF refl True refl refl, folded cp_def]
    have ih: "p < length (heap[pos := heap ! cp]) \<and> length h = length (heap[pos := heap ! cp])
              \<and> mset (h[p := x]) = mset (heap[pos := heap ! cp, cp := x])"
      using ih0 [OF _ r] cpl by simp
    moreover have "mset (heap[pos := heap ! cp, cp := x]) = mset (heap[pos := x])"
      using mset_update_swap [of pos heap cp x] "1.prems" cpl cpne by simp
    ultimately show ?thesis by simp
  next
    case False
    then have "siftup_loop heap pos = (heap, pos)"
      by (subst siftup_loop.simps) (simp add: Let_def)
    with "1.prems" show ?thesis by auto
  qed
qed

lemma mset_siftup: "pos < length heap \<Longrightarrow> mset (siftup heap pos) = mset heap"
proof -
  assume a: "pos < length heap"
  obtain h p where hp: "siftup_loop heap pos = (h, p)" by (cases "siftup_loop heap pos")
  from siftup_loop_props [OF a hp, of "heap ! pos"]
  have "p < length h" "mset (h[p := heap ! pos]) = mset heap" by simp_all
  then show ?thesis by (simp add: siftup_def hp mset_siftdown)
qed

lemma mset_heappush: "mset (heappush heap item) = add_mset item (mset heap)"
  by (simp add: heappush_def mset_siftdown)

lemma heappop_props:
  "heappop heap = Inr (item, heap') \<Longrightarrow> item = heap ! 0 \<and> mset heap = add_mset item (mset heap')"
proof (cases heap rule: rev_cases)
  case Nil
  assume "heappop heap = Inr (item, heap')"
  with Nil show ?thesis by simp
next
  case (snoc rest lastelt)
  assume a: "heappop heap = Inr (item, heap')"
  show ?thesis
  proof (cases "rest = []")
    case True
    with a snoc show ?thesis by (simp add: heappop_def)
  next
    case False
    with a snoc have i: "item = rest ! 0" and h: "heap' = siftup (rest[0 := lastelt]) 0"
      by (simp_all add: heappop_def)
    from False have m: "mset heap' = mset (rest[0 := lastelt])"
      unfolding h by (intro mset_siftup) simp
    have "rest ! 0 \<in># mset rest" using False by (simp add: hd_conv_nth [symmetric])
    with False show ?thesis
      by (simp add: i m snoc nth_append mset_update)
  qed
qed

lemma mset_fold_siftup:
  "\<forall>i \<in> set is. i < length h \<Longrightarrow>
   mset (fold (\<lambda>i h. siftup h i) is h) = mset h"
proof (induction "is" arbitrary: h)
  case Nil
  show ?case by simp
next
  case (Cons i "is")
  then have "mset (fold (\<lambda>i h. siftup h i) is (siftup h i)) = mset (siftup h i)"
    by (intro Cons.IH) simp
  with Cons.prems show ?case by (simp add: mset_siftup)
qed

lemma mset_heapify: "mset (heapify x) = mset x"
  unfolding heapify_def by (rule mset_fold_siftup) auto

lemma mset_heap_merge: "mset (heap_merge xs ys) = mset xs + mset ys"
  by (induction xs ys rule: heap_merge.induct) auto


subsection \<open>Saturation pass\<close>

lemma set_at_length [simp]: "length (set_at idxs v xs) = length xs"
  unfolding set_at_def by (induction idxs arbitrary: xs) auto

lemma set_at_nth_other: "p \<notin> set idxs \<Longrightarrow> set_at idxs v xs ! p = xs ! p"
  unfolding set_at_def by (induction idxs arbitrary: xs) auto

lemma where_eq_iff: "p \<in> set (where_eq xs v) \<longleftrightarrow> p < length xs \<and> xs ! p = v"
  by (auto simp: where_eq_def)

lemma sat_step_keeps_pore:
  "pore_inv_seq s ! p \<noteq> i \<Longrightarrow>
   pore_inv_sat (sat_step ops net s vt i f) ! p = pore_inv_sat f ! p"
  by (simp add: sat_step_def Let_def set_at_nth_other where_eq_iff)

lemma sat_step_keeps_throat:
  "throat_inv_seq s ! t \<noteq> i \<Longrightarrow>
   throat_inv_sat (sat_step ops net s vt i f) ! t = throat_inv_sat f ! t"
  by (simp add: sat_step_def Let_def set_at_nth_other where_eq_iff)

lemma sat_fold_keeps_pore:
  "pore_inv_seq s ! p \<notin> set is \<Longrightarrow>
   pore_inv_sat (fold (sat_step ops net s vt) is f) ! p = pore_inv_sat f ! p"
  by (induction "is" arbitrary: f) (auto simp: sat_step_keeps_pore)

lemma sat_fold_keeps_throat:
  "throat_inv_seq s ! t \<notin> set is \<Longrightarrow>
   throat_inv_sat (fold (sat_step ops net s vt) is f) ! t = throat_inv_sat f ! t"
  by (induction "is" arbitrary: f) (auto simp: sat_step_keeps_throat)


text \<open>
  C10: after the saturation pass every pore and every throat whose \<open>inv_seq\<close> is 0
  carries \<open>IP_inv_sat = 1.0\<close>, the value the two arrays are initialised with: the loop
  over the sequence numbers \<open>1 .. tseq\<close> writes only at elements whose \<open>inv_seq\<close> is
  the number at hand.  This holds whatever the float operations are.
\<close>

theorem uninvaded_saturation_is_one:
  "(p < num_pores net \<and> pore_inv_seq s ! p = 0
      \<longrightarrow> pore_inv_sat (saturation_pass ops net s) ! p = np_float ops 1)
   \<and> (t < length (conns net) \<and> throat_inv_seq s ! t = 0
      \<longrightarrow> throat_inv_sat (saturation_pass ops net s) ! t = np_float ops 1)"
  by (simp add: saturation_pass_def Let_def sat_fold_keeps_pore sat_fold_keeps_throat)

text \<open>
  The timed chain run ends after one event, at the breakthrough in pore 1; pore 2 and
  throat 1 are never invaded.
\<close>

theorem uninvaded_saturation_is_one_witness:
  "run_engine 1 net_chain0 cfg_chain = Some (Inr (final_state 1 net_chain0 cfg_chain))
   \<and> condition (final_state 1 net_chain0 cfg_chain) = False
   \<and> pore_inv_seq (final_state 1 net_chain0 cfg_chain) ! 2 = 0
   \<and> pore_inv_sat (saturation_pass exact_ops net_chain0 (final_state 1 net_chain0 cfg_chain)) ! 2
       = Fin 1
   \<and> throat_inv_seq (final_state 1 net_chain0 cfg_chain) ! 1 = 0
   \<and> throat_inv_sat (saturation_pass exact_ops net_chain0 (final_state 1 net_chain0 cfg_chain)) ! 1
       = Fin 1"
proof -
  have r: "run_engine 1 net_chain0 cfg_chain = Some (Inr (final_state 1 net_chain0 cfg_chain))"
    by code_simp
  have c: "condition (final_state 1 net_chain0 cfg_chain) = False"
    by code_simp
  have p: "2 < num_pores net_chain0 \<and> pore_inv_seq (final_state 1 net_chain0 cfg_chain) ! 2 = 0"
    by code_simp
  have t: "1 < length (conns net_chain0)
           \<and> throat_inv_seq (final_state 1 net_chain0 cfg_chain) ! 1 = 0"
    by code_simp
  have o: "np_float exact_ops 1 = Fin 1"
    by (simp add: exact_ops_def)
  from uninvaded_saturation_is_one
         [of 2 net_chain0 "final_state 1 net_chain0 cfg_chain" exact_ops 1] r c p t o
  show ?thesis by simp
qed

subsection \<open>Progress with coinciding centroids\<close>

lemma distance_nonneg: "0 \<le> distance a b"
  by (simp add: distance_def Let_def)

lemma same_init: "initial_distance (setup_progress net_chain cfg_same) = 0"
  by (simp add: setup_progress_def net_chain_def cfg_same_def centroid_def distance_def py_nth_def Let_def)


text \<open>
  C6, as stated, fails: with the inlet and outlet centroids at the same place the setup
  computes \<open>0/0\<close>; the progress value is NaN, not 100.
\<close>

theorem zero_distance_progress_counterexample:
  "initial_distance (setup_progress net_chain cfg_same) = 0
   \<and> percent_complete (setup_progress net_chain cfg_same) = NaN
   \<and> percent_complete (setup_progress net_chain cfg_same) \<noteq> Fin 100"
  using same_init by (simp add: setup_progress_def Let_def)


text \<open>
  C6, amended: in breakthrough mode with \<open>initial_distance = 0\<close> the progress value
  computed by the setup is NaN, only the line for 0 per cent has been printed, and the
  progress part of every later \<open>_condition_update\<close> leaves the progress fields as they
  are (no pore is nearer than distance 0, and no comparison with NaN holds).
\<close>

theorem zero_distance_progress_is_nan:
  assumes "end_condition cfg = Breakthrough"
    and "initial_distance (setup_progress net cfg) = 0"
  shows "percent_complete (setup_progress net cfg) = NaN
         \<and> printed (setup_progress net cfg) = [Fin 0]
         \<and> progress_update net cfg s (setup_progress net cfg) = setup_progress net cfg"
proof -
  let ?pr = "setup_progress net cfg"
  have p: "percent_complete ?pr = NaN" using assms(2) by (simp add: setup_progress_def Let_def)
  have c: "current_distance ?pr = 0" using assms(2) by (simp add: setup_progress_def Let_def)
  have pr: "printed ?pr = [Fin 0]" by (simp add: setup_progress_def Let_def)
  have "\<not> distance (outlet_position ?pr) (py_nth (coords net) (NewPore s)) < current_distance ?pr"
    using distance_nonneg [of "outlet_position ?pr" "py_nth (coords net) (NewPore s)"] c by simp
  then have "progress_update net cfg s ?pr = ?pr"
    using assms(1) p by (simp add: progress_update_def Let_def)
  with p pr show ?thesis by simp
qed

theorem zero_distance_progress_is_nan_witness:
  "end_condition cfg_same = Breakthrough
   \<and> initial_distance (setup_progress net_chain cfg_same) = 0
   \<and> percent_complete (setup_progress net_chain cfg_same) = NaN
   \<and> printed (setup_progress net_chain cfg_same) = [Fin 0]
   \<and> progress_update net_chain cfg_same (initial_state net_chain cfg_same)
        (setup_progress net_chain cfg_same) = setup_progress net_chain cfg_same"
proof -
  have e: "end_condition cfg_same = Breakthrough" by (simp add: cfg_same_def)
  from zero_distance_progress_is_nan [OF e same_init, of "initial_state net_chain cfg_same"]
       e same_init
  show ?thesis by blast
qed



subsection \<open>Cleaning the frontier heap\<close>

text \<open>
  The heap that \<open>heappop\<close> leaves (the heap itself when it is empty), so that
  \<open>(drop_top ^^ j) heap\<close> is the heap after \<open>j\<close> pops and its entry 0 is what the
  next pop returns.
\<close>

definition drop_top :: "entry list \<Rightarrow> entry list" where
  "drop_top heap = (case heappop heap of Inl e \<Rightarrow> heap | Inr (item, heap') \<Rightarrow> heap')"

lemma cleanup_loop_spec:
  "heap \<noteq> [] \<Longrightarrow> cleanup_loop tcf Tv tm heap vc = (heap', vc') \<Longrightarrow>
   \<exists>k. heap' = (drop_top ^^ k) heap
     \<and> (\<forall>j < k. (drop_top ^^ j) heap \<noteq> [] \<and> 0 < tcf ! snd ((drop_top ^^ j) heap ! 0))
     \<and> (heap' = [] \<or> tcf ! snd (heap' ! 0) = 0)
     \<and> vc' = (if tm then fold (\<lambda>j v. v - Tv ! snd ((drop_top ^^ j) heap ! 0)) [0 ..< k] vc
              else vc)"
proof (induction tcf Tv tm heap vc arbitrary: heap' vc' rule: cleanup_loop.induct)
  case (1 tcf Tv tm heap vc)
  from "1.prems"(1) obtain top_entry rest where hd: "heap = top_entry # rest"
    by (cases heap) auto
  show ?case
  proof (cases "0 < tcf ! snd top_entry")
    case False
    then have "cleanup_loop tcf Tv tm heap vc = (heap, vc)"
      by (subst cleanup_loop.simps) (simp add: hd)
    with "1.prems"(2) False hd show ?thesis
      by (intro exI [of _ 0]) auto
  next
    case True
    from heappop_nonempty [OF "1.prems"(1)] obtain tremove heap1
      where pop: "heappop heap = Inr (tremove, heap1)" by blast
    from heappop_props [OF pop] hd
    have tr: "tremove = top_entry" by simp
    have dt: "drop_top heap = heap1" by (simp add: drop_top_def pop)
    have top0: "heap ! 0 = top_entry" by (simp add: hd)
    define vc1 where "vc1 = (if tm then vc - Tv ! snd tremove else vc)"
    show ?thesis
    proof (cases "heap1 = []")
      case True
      have "cleanup_loop tcf Tv tm heap vc = (heap1, vc1)"
        using \<open>0 < tcf ! snd top_entry\<close> True
        by (subst cleanup_loop.simps) (simp add: hd pop [unfolded hd] vc1_def)
      with "1.prems"(2) have r: "heap' = heap1" "vc' = vc1" by simp_all
      show ?thesis
        using r True tr \<open>0 < tcf ! snd top_entry\<close> "1.prems"(1) dt top0
        by (intro exI [of _ 1]) (auto simp: vc1_def)
    next
      case False
      have eq: "cleanup_loop tcf Tv tm heap vc = cleanup_loop tcf Tv tm heap1 vc1"
        using \<open>0 < tcf ! snd top_entry\<close> False
        by (subst cleanup_loop.simps) (simp add: hd pop [unfolded hd] vc1_def Let_def)
      with "1.prems"(2) have r: "cleanup_loop tcf Tv tm heap1 vc1 = (heap', vc')" by simp
      have tpos: "0 < tcf ! snd top_entry" by (rule True)
      from "1.IH" [OF hd tpos pop refl refl False False r [unfolded vc1_def]]
      obtain k where k: "heap' = (drop_top ^^ k) heap1"
        "\<forall>j < k. (drop_top ^^ j) heap1 \<noteq> [] \<and> 0 < tcf ! snd ((drop_top ^^ j) heap1 ! 0)"
        "heap' = [] \<or> tcf ! snd (heap' ! 0) = 0"
        "vc' = (if tm then fold (\<lambda>j v. v - Tv ! snd ((drop_top ^^ j) heap1 ! 0)) [0 ..< k] vc1
                else vc1)"
        unfolding vc1_def by blast
      have sh: "(drop_top ^^ Suc j) heap = (drop_top ^^ j) heap1" for j
        by (simp add: funpow_swap1 dt)
      have a: "heap' = (drop_top ^^ Suc k) heap" using k(1) sh by simp
      have b: "(drop_top ^^ j) heap \<noteq> [] \<and> 0 < tcf ! snd ((drop_top ^^ j) heap ! 0)"
        if "j < Suc k" for j
      proof (cases j)
        case 0
        then show ?thesis using "1.prems"(1) tpos top0 by simp
      next
        case (Suc j')
        with that k(2) show ?thesis unfolding Suc sh by simp
      qed
      have up: "[0 ..< Suc k] = 0 # map Suc [0 ..< k]"
        by (simp add: upt_conv_Cons map_Suc_upt del: upt_Suc)
      have c: "fold (\<lambda>j v. v - Tv ! snd ((drop_top ^^ j) heap ! 0)) [0 ..< Suc k] vc
               = fold (\<lambda>j v. v - Tv ! snd ((drop_top ^^ j) heap1 ! 0)) [0 ..< k]
                   (vc - Tv ! snd tremove)"
        unfolding up by (simp add: fold_map comp_def sh top0 tr del: funpow.simps)
      show ?thesis
        using a b k(3,4) c by (intro exI [of _ "Suc k"]) (auto simp: vc1_def simp del: upt_Suc funpow.simps)
    qed
  qed
qed

lemma cleanup_frontier_fields:
  assumes "tpoints s ! (current_cluster s - 1) \<noteq> []"
    and "cleanup_loop (throat_cluster_final s) (Tvol_coef s) (timing cfg)
           (tpoints s ! (current_cluster s - 1)) (vol_coef s ! (current_cluster s - 1))
         = (heap', vc')"
  shows "tpoints (cleanup_frontier cfg s) = (tpoints s)[current_cluster s - 1 := heap']"
    and "timing cfg \<Longrightarrow>
         vol_coef (cleanup_frontier cfg s) = (vol_coef s)[current_cluster s - 1 := vc']"
    and "\<not> timing cfg \<Longrightarrow> vol_coef (cleanup_frontier cfg s) = vol_coef s"
  using assms by (simp_all add: cleanup_frontier_def Let_def)


text \<open>
  C9: the cleanup after an event (\<open>cleanup_frontier\<close>, lines 526 to 536) pops the heap
  of the current cluster a number \<open>k\<close> of times: before each of these pops the heap is
  not empty and the throat of its top entry, the entry the pop discards, is labelled by
  some cluster, and after them the heap is empty or the throat of its top entry has
  label 0.  With timing on the cluster's \<open>vol_coef\<close> is the old value with the
  coefficient of each discarded throat subtracted in turn; with timing off it is left
  as it is.
\<close>

theorem cleanup_discards_invaded_entries:
  assumes "c = current_cluster s"
    and "c - 1 < length (tpoints s)"
    and "c - 1 < length (vol_coef s)"
  shows "\<exists>k. tpoints (cleanup_frontier cfg s) ! (c - 1) = (drop_top ^^ k) (tpoints s ! (c - 1))
       \<and> (\<forall>j < k. (drop_top ^^ j) (tpoints s ! (c - 1)) \<noteq> []
                  \<and> 0 < throat_cluster_final s ! snd ((drop_top ^^ j) (tpoints s ! (c - 1)) ! 0))
       \<and> ((drop_top ^^ k) (tpoints s ! (c - 1)) = []
          \<or> throat_cluster_final s ! snd ((drop_top ^^ k) (tpoints s ! (c - 1)) ! 0) = 0)
       \<and> vol_coef (cleanup_frontier cfg s) ! (c - 1)
         = (if timing cfg
            then fold (\<lambda>j v. v - Tvol_coef s ! snd ((drop_top ^^ j) (tpoints s ! (c - 1)) ! 0))
                   [0 ..< k] (vol_coef s ! (c - 1))
            else vol_coef s ! (c - 1))"
proof (cases "tpoints s ! (c - 1) = []")
  case True
  then have "cleanup_frontier cfg s = s" using assms(1) by (simp add: cleanup_frontier_def)
  with True show ?thesis by (intro exI [of _ 0]) auto
next
  case False
  obtain heap' vc' where cl:
    "cleanup_loop (throat_cluster_final s) (Tvol_coef s) (timing cfg)
       (tpoints s ! (c - 1)) (vol_coef s ! (c - 1)) = (heap', vc')"
    by (cases "cleanup_loop (throat_cluster_final s) (Tvol_coef s) (timing cfg)
                 (tpoints s ! (c - 1)) (vol_coef s ! (c - 1))")
  from cleanup_frontier_fields [of s cfg heap' vc'] False cl assms
  have tp: "tpoints (cleanup_frontier cfg s) ! (c - 1) = heap'"
    and vc: "timing cfg \<Longrightarrow> vol_coef (cleanup_frontier cfg s) ! (c - 1) = vc'"
    and vn: "\<not> timing cfg \<Longrightarrow> vol_coef (cleanup_frontier cfg s) ! (c - 1) = vol_coef s ! (c - 1)"
    by simp_all
  from cleanup_loop_spec [OF False cl]
  obtain k where k: "heap' = (drop_top ^^ k) (tpoints s ! (c - 1))"
    "\<forall>j < k. (drop_top ^^ j) (tpoints s ! (c - 1)) \<noteq> []
        \<and> 0 < throat_cluster_final s ! snd ((drop_top ^^ j) (tpoints s ! (c - 1)) ! 0)"
    "heap' = [] \<or> throat_cluster_final s ! snd (heap' ! 0) = 0"
    "vc' = (if timing cfg
            then fold (\<lambda>j v. v - Tvol_coef s ! snd ((drop_top ^^ j) (tpoints s ! (c - 1)) ! 0))
                   [0 ..< k] (vol_coef s ! (c - 1))
            else vol_coef s ! (c - 1))"
    by blast
  show ?thesis
  proof (intro exI [of _ k] conjI)
    show "tpoints (cleanup_frontier cfg s) ! (c - 1) = (drop_top ^^ k) (tpoints s ! (c - 1))"
      using tp k(1) by simp
    show "\<forall>j < k. (drop_top ^^ j) (tpoints s ! (c - 1)) \<noteq> []
        \<and> 0 < throat_cluster_final s ! snd ((drop_top ^^ j) (tpoints s ! (c - 1)) ! 0)"
      by (rule k(2))
    show "(drop_top ^^ k) (tpoints s ! (c - 1)) = []
          \<or> throat_cluster_final s ! snd ((drop_top ^^ k) (tpoints s ! (c - 1)) ! 0) = 0"
      using k(1,3) by simp
    show "vol_coef (cleanup_frontier cfg s) ! (c - 1)
         = (if timing cfg
            then fold (\<lambda>j v. v - Tvol_coef s ! snd ((drop_top ^^ j) (tpoints s ! (c - 1)) ! 0))
                   [0 ..< k] (vol_coef s ! (c - 1))
            else vol_coef s ! (c - 1))"
      using vc vn k(4) by (cases "timing cfg") simp_all
  qed
qed

lemma tri_wide_before_cleanup:
  "(let s = before_cleanup net_tri_wide cfg_tri (state_after 1 net_tri_wide cfg_tri)
    in (current_cluster s, length (tpoints s), length (vol_coef s), tpoints s ! 0,
        throat_cluster_final s, Tvol_coef s ! 1))
   = (1, 2, 2, [(2, 1), (3, 2), (3, 2)], [1, 1, 0], 884279719003555 / 24)"
  by code_simp

lemma drop_top_example: "(drop_top ^^ 1) [(2, 1), (3, 2), (3, 2)] = [(3, 2), (3, 2)]"
  by code_simp

text \<open>
  In the timed run on the triangle with wide throats the second event merges the two
  clusters; before its cleanup the heap of cluster 1 has the entry of throat 1, which
  the event has just invaded, on top.  The cleanup pops this one entry.
\<close>

theorem cleanup_discards_invaded_entries_witness:
  "current_cluster (before_cleanup net_tri_wide cfg_tri (state_after 1 net_tri_wide cfg_tri)) = 1
   \<and> timing cfg_tri
   \<and> tpoints (before_cleanup net_tri_wide cfg_tri (state_after 1 net_tri_wide cfg_tri)) ! 0
       = [(2, 1), (3, 2), (3, 2)]
   \<and> throat_cluster_final (before_cleanup net_tri_wide cfg_tri (state_after 1 net_tri_wide cfg_tri))
       = [1, 1, 0]
   \<and> tpoints (cleanup_frontier cfg_tri
         (before_cleanup net_tri_wide cfg_tri (state_after 1 net_tri_wide cfg_tri))) ! 0
       = [(3, 2), (3, 2)]
   \<and> vol_coef (cleanup_frontier cfg_tri
         (before_cleanup net_tri_wide cfg_tri (state_after 1 net_tri_wide cfg_tri))) ! 0
       = vol_coef (before_cleanup net_tri_wide cfg_tri (state_after 1 net_tri_wide cfg_tri)) ! 0
         - Tvol_coef (before_cleanup net_tri_wide cfg_tri (state_after 1 net_tri_wide cfg_tri)) ! 1
   \<and> Tvol_coef (before_cleanup net_tri_wide cfg_tri (state_after 1 net_tri_wide cfg_tri)) ! 1
       = 884279719003555 / 24"
proof -
  define s where "s = before_cleanup net_tri_wide cfg_tri (state_after 1 net_tri_wide cfg_tri)"
  define h where "h = tpoints s ! (1 - 1)"
  from tri_wide_before_cleanup [folded s_def]
  have c: "1 = current_cluster s" and l1: "1 - 1 < length (tpoints s)"
    and l2: "1 - 1 < length (vol_coef s)"
    and h: "h = [(2, 1), (3, 2), (3, 2)]"
    and lab: "throat_cluster_final s = [1, 1, 0]"
    and tv: "Tvol_coef s ! 1 = 884279719003555 / 24"
    by (simp_all add: Let_def h_def)
  have t: "timing cfg_tri" by (simp add: cfg_tri_def)
  have p1: "(drop_top ^^ 1) h = [(3, 2), (3, 2)]"
    unfolding h by (rule drop_top_example)
  from cleanup_discards_invaded_entries [OF c l1 l2, of cfg_tri, folded h_def]
  obtain k where k: "tpoints (cleanup_frontier cfg_tri s) ! (1 - 1) = (drop_top ^^ k) h"
    "\<forall>j < k. (drop_top ^^ j) h \<noteq> [] \<and> 0 < throat_cluster_final s ! snd ((drop_top ^^ j) h ! 0)"
    "(drop_top ^^ k) h = [] \<or> throat_cluster_final s ! snd ((drop_top ^^ k) h ! 0) = 0"
    "vol_coef (cleanup_frontier cfg_tri s) ! (1 - 1)
     = (if timing cfg_tri
        then fold (\<lambda>j v. v - Tvol_coef s ! snd ((drop_top ^^ j) h ! 0)) [0 ..< k]
               (vol_coef s ! (1 - 1))
        else vol_coef s ! (1 - 1))"
    by blast
  have k0: "k \<noteq> 0"
  proof
    assume "k = 0"
    with k(3) have "h = [] \<or> throat_cluster_final s ! snd (h ! 0) = 0" by simp
    then show False by (simp add: h lab)
  qed
  have k2: "k < 2"
  proof (rule ccontr)
    assume "\<not> k < 2"
    then have "1 < k" by simp
    with k(2) have "0 < throat_cluster_final s ! snd ((drop_top ^^ 1) h ! 0)" by blast
    then show False unfolding p1 by (simp add: lab)
  qed
  from k0 k2 have k1: "k = 1" by simp
  have a: "tpoints (cleanup_frontier cfg_tri s) ! 0 = [(3, 2), (3, 2)]"
    using k(1) p1 unfolding k1 by simp
  have b: "vol_coef (cleanup_frontier cfg_tri s) ! 0 = vol_coef s ! 0 - Tvol_coef s ! 1"
    using k(4) t unfolding k1 by (simp add: h)
  from c t h lab a b tv show ?thesis
    unfolding s_def [symmetric] h_def by simp
qed

subsection \<open>What each part of an event changes\<close>

lemma nth_upd: "xs[i := v] ! j = (if i = j \<and> i < length xs then v else xs ! j)"
  by (cases "i < length xs") (auto simp: nth_list_update list_update_beyond)

lemma merge_labels_frame [simp]:
  "tseq (merge_labels mx s) = tseq s"
  "seq_log (merge_labels mx s) = seq_log s"
  "pore_inv_seq (merge_labels mx s) = pore_inv_seq s"
  "throat_inv_seq (merge_labels mx s) = throat_inv_seq s"
  "sim_time (merge_labels mx s) = sim_time s"
  "current_cluster (merge_labels mx s) = current_cluster s"
  "active (merge_labels mx s) = active s"
  "haines_time (merge_labels mx s) = haines_time s"
  "tlists (merge_labels mx s) = tlists s"
  "tpoints (merge_labels mx s) = tpoints s"
  "transform (merge_labels mx s) = relabel mx (current_cluster s) (transform s)"
  by (simp_all add: merge_labels_def)

lemma merge_frontiers_frame [simp]:
  "tseq (merge_frontiers mx s) = tseq s"
  "seq_log (merge_frontiers mx s) = seq_log s"
  "pore_inv_seq (merge_frontiers mx s) = pore_inv_seq s"
  "throat_inv_seq (merge_frontiers mx s) = throat_inv_seq s"
  "sim_time (merge_frontiers mx s) = sim_time s"
  "current_cluster (merge_frontiers mx s) = current_cluster s"
  "active (merge_frontiers mx s) = active s"
  "haines_time (merge_frontiers mx s) = haines_time s"
  "transform (merge_frontiers mx s) = transform s"
  by (simp_all add: merge_frontiers_def Let_def)

lemma merge_volumes_frame [simp]:
  "tseq (merge_volumes mx s) = tseq s"
  "seq_log (merge_volumes mx s) = seq_log s"
  "pore_inv_seq (merge_volumes mx s) = pore_inv_seq s"
  "throat_inv_seq (merge_volumes mx s) = throat_inv_seq s"
  "sim_time (merge_volumes mx s) = sim_time s"
  "current_cluster (merge_volumes mx s) = current_cluster s"
  "active (merge_volumes mx s) = active s"
  "haines_time (merge_volumes mx s) = haines_time s"
  "transform (merge_volumes mx s) = transform s"
  "tlists (merge_volumes mx s) = tlists s"
  "tpoints (merge_volumes mx s) = tpoints s"
  by (simp_all add: merge_volumes_def Let_def)

lemma merge_activity_frame [simp]:
  "tseq (merge_activity cfg mx s) = tseq s"
  "seq_log (merge_activity cfg mx s) = seq_log s"
  "pore_inv_seq (merge_activity cfg mx s) = pore_inv_seq s"
  "throat_inv_seq (merge_activity cfg mx s) = throat_inv_seq s"
  "sim_time (merge_activity cfg mx s) = sim_time s"
  "current_cluster (merge_activity cfg mx s) = current_cluster s"
  "transform (merge_activity cfg mx s) = transform s"
  "tlists (merge_activity cfg mx s) = tlists s"
  by (simp_all add: merge_activity_def Let_def)

lemma merge_clusters_frame [simp]:
  "tseq (merge_clusters cfg mx s) = tseq s"
  "seq_log (merge_clusters cfg mx s) = seq_log s"
  "pore_inv_seq (merge_clusters cfg mx s) = pore_inv_seq s"
  "throat_inv_seq (merge_clusters cfg mx s) = throat_inv_seq s"
  "sim_time (merge_clusters cfg mx s) = sim_time s"
  "current_cluster (merge_clusters cfg mx s) = current_cluster s"
  "transform (merge_clusters cfg mx s) = relabel mx (current_cluster s) (transform s)"
  by (simp_all add: merge_clusters_def Let_def)

lemma merge_activity_inactive:
  assumes "c = current_cluster s"
    and "c - 1 < length (active s)"
    and "c - 1 < length (haines_time s)"
    and "active s ! (mx - 1) + active s ! (c - 1) < 2"
  shows "active (merge_activity cfg mx s) ! (c - 1) = 0"
    and "timing cfg \<Longrightarrow> haines_time (merge_activity cfg mx s) ! (c - 1) = sentinel"
  using assms by (simp_all add: merge_activity_def Let_def nth_upd)

lemma merge_clusters_inactive:
  assumes "c = current_cluster s"
    and "c - 1 < length (active s)"
    and "c - 1 < length (haines_time s)"
    and "active s ! (mx - 1) + active s ! (c - 1) < 2"
  shows "active (merge_clusters cfg mx s) ! (c - 1) = 0"
    and "timing cfg \<Longrightarrow> haines_time (merge_clusters cfg mx s) ! (c - 1) = sentinel"
proof -
  define s5 where "s5 = (if timing cfg
      then merge_volumes mx (merge_frontiers mx (merge_labels mx s))
      else merge_frontiers mx (merge_labels mx s))"
  have f: "current_cluster s5 = current_cluster s" "active s5 = active s"
    "haines_time s5 = haines_time s"
    by (simp_all add: s5_def)
  have m: "merge_clusters cfg mx s = merge_activity cfg mx s5"
    by (simp add: merge_clusters_def s5_def)
  from merge_activity_inactive [of c s5 mx cfg] assms f
  show "active (merge_clusters cfg mx s) ! (c - 1) = 0"
    and "timing cfg \<Longrightarrow> haines_time (merge_clusters cfg mx s) ! (c - 1) = sentinel"
    by (simp_all add: m)
qed

lemma mark_throat_frame [simp]:
  "tseq (mark_throat cfg t s) = tseq s"
  "seq_log (mark_throat cfg t s) = seq_log s @ [tseq s]"
  "pore_inv_seq (mark_throat cfg t s) = pore_inv_seq s"
  "throat_inv_seq (mark_throat cfg t s) = (throat_inv_seq s)[t := tseq s]"
  "sim_time (mark_throat cfg t s) = sim_time s"
  "current_cluster (mark_throat cfg t s) = current_cluster s"
  "active (mark_throat cfg t s) = active s"
  "haines_time (mark_throat cfg t s) = haines_time s"
  "transform (mark_throat cfg t s) = transform s"
  "tlists (mark_throat cfg t s) = tlists s"
  "tpoints (mark_throat cfg t s) = tpoints s"
  "pore_cluster_final (mark_throat cfg t s) = pore_cluster_final s"
  "throat_cluster_final (mark_throat cfg t s) = throat_cluster_final s"
  by (simp_all add: mark_throat_def Let_def)

lemma both_invaded_frame [simp]:
  "tseq (both_invaded net cfg t s) = tseq s"
  "seq_log (both_invaded net cfg t s) = seq_log s"
  "pore_inv_seq (both_invaded net cfg t s) = pore_inv_seq s"
  "throat_inv_seq (both_invaded net cfg t s) = throat_inv_seq s"
  "sim_time (both_invaded net cfg t s) = sim_time s"
  by (simp_all add: both_invaded_def Let_def)

lemma add_neighbors_frame [simp]:
  "tseq (add_neighbors net cfg js s) = tseq s"
  "seq_log (add_neighbors net cfg js s) = seq_log s"
  "pore_inv_seq (add_neighbors net cfg js s) = pore_inv_seq s"
  "throat_inv_seq (add_neighbors net cfg js s) = throat_inv_seq s"
  "sim_time (add_neighbors net cfg js s) = sim_time s"
  "current_cluster (add_neighbors net cfg js s) = current_cluster s"
  "active (add_neighbors net cfg js s) = active s"
  "haines_time (add_neighbors net cfg js s) = haines_time s"
  "transform (add_neighbors net cfg js s) = transform s"
  "pore_cluster_final (add_neighbors net cfg js s) = pore_cluster_final s"
  "throat_cluster_final (add_neighbors net cfg js s) = throat_cluster_final s"
  by (induction js arbitrary: s; simp add: Let_def)+

lemma label_new_pore_frame [simp]:
  "tseq (label_new_pore net cfg t s) = tseq s"
  "seq_log (label_new_pore net cfg t s) = seq_log s @ [tseq s]"
  "throat_inv_seq (label_new_pore net cfg t s) = throat_inv_seq s"
  "sim_time (label_new_pore net cfg t s) = sim_time s"
  "current_cluster (label_new_pore net cfg t s) = current_cluster s"
  "active (label_new_pore net cfg t s) = active s"
  "haines_time (label_new_pore net cfg t s) = haines_time s"
  "transform (label_new_pore net cfg t s) = transform s"
  "tlists (label_new_pore net cfg t s) = tlists s"
  "tpoints (label_new_pore net cfg t s) = tpoints s"
  by (simp_all add: label_new_pore_def Let_def)


lemma new_pore_frame [simp]:
  "tseq (new_pore net cfg t s) = tseq s"
  "seq_log (new_pore net cfg t s) = seq_log s @ [tseq s]"
  "throat_inv_seq (new_pore net cfg t s) = throat_inv_seq s"
  "sim_time (new_pore net cfg t s) = sim_time s"
  "current_cluster (new_pore net cfg t s) = current_cluster s"
  "active (new_pore net cfg t s) = active s"
  "haines_time (new_pore net cfg t s) = haines_time s"
  "transform (new_pore net cfg t s) = transform s"
  by (simp_all add: new_pore_def Let_def)


lemma cleanup_frontier_frame [simp]:
  "tseq (cleanup_frontier cfg s) = tseq s"
  "seq_log (cleanup_frontier cfg s) = seq_log s"
  "pore_inv_seq (cleanup_frontier cfg s) = pore_inv_seq s"
  "throat_inv_seq (cleanup_frontier cfg s) = throat_inv_seq s"
  "sim_time (cleanup_frontier cfg s) = sim_time s"
  "current_cluster (cleanup_frontier cfg s) = current_cluster s"
  "haines_time (cleanup_frontier cfg s) = haines_time s"
  "transform (cleanup_frontier cfg s) = transform s"
  "tlists (cleanup_frontier cfg s) = tlists s"
  "pore_cluster_final (cleanup_frontier cfg s) = pore_cluster_final s"
  "throat_cluster_final (cleanup_frontier cfg s) = throat_cluster_final s"
  by (simp_all add: cleanup_frontier_def Let_def split: prod.splits)


lemma retire_empty_frame [simp]:
  "tseq (retire_empty cfg s) = tseq s"
  "seq_log (retire_empty cfg s) = seq_log s"
  "pore_inv_seq (retire_empty cfg s) = pore_inv_seq s"
  "throat_inv_seq (retire_empty cfg s) = throat_inv_seq s"
  "sim_time (retire_empty cfg s) = sim_time s"
  "current_cluster (retire_empty cfg s) = current_cluster s"
  "transform (retire_empty cfg s) = transform s"
  "tlists (retire_empty cfg s) = tlists s"
  "tpoints (retire_empty cfg s) = tpoints s"
  "pore_cluster_final (retire_empty cfg s) = pore_cluster_final s"
  "throat_cluster_final (retire_empty cfg s) = throat_cluster_final s"
  by (simp_all add: retire_empty_def Let_def)




lemma condition_update_frame [simp]:
  "tseq (condition_update cfg s) = tseq s"
  "seq_log (condition_update cfg s) = seq_log s"
  "pore_inv_seq (condition_update cfg s) = pore_inv_seq s"
  "throat_inv_seq (condition_update cfg s) = throat_inv_seq s"
  "sim_time (condition_update cfg s) = sim_time s"
  "current_cluster (condition_update cfg s) = current_cluster s"
  "transform (condition_update cfg s) = transform s"
  "tlists (condition_update cfg s) = tlists s"
  "tpoints (condition_update cfg s) = tpoints s"
  "pore_cluster_final (condition_update cfg s) = pore_cluster_final s"
  "throat_cluster_final (condition_update cfg s) = throat_cluster_final s"
  by (simp_all add: condition_update_def Let_def split: end_cond.splits)


lemma count_event_frame [simp]:
  "tseq (count_event plast s) = tseq s + 1"
  "seq_log (count_event plast s) = seq_log s"
  "pore_inv_seq (count_event plast s) = pore_inv_seq s"
  "throat_inv_seq (count_event plast s) = throat_inv_seq s"
  "sim_time (count_event plast s) = sim_time s"
  "current_cluster (count_event plast s) = current_cluster s"
  "active (count_event plast s) = active s"
  "haines_time (count_event plast s) = haines_time s"
  "transform (count_event plast s) = transform s"
  "tlists (count_event plast s) = tlists s"
  "tpoints (count_event plast s) = tpoints s"
  "NewPore (count_event plast s) = NewPore s"
  "pore_cluster_final (count_event plast s) = pore_cluster_final s"
  "throat_cluster_final (count_event plast s) = throat_cluster_final s"
  by (simp_all add: count_event_def Let_def)





subsection \<open>Sequence numbers\<close>
















end
